theory Spec2Isabelle
  imports Main
begin

unbundle bit_operations_syntax

section \<open>The PCx86 SerialPort component (NS8250A emulation)\<close>

text \<open>
  A shallow embedding of \<^verbatim>\<open>SerialPort\<close> (the serial adapter of PCjs): its register bank,
  the receive queue, the interrupt arbitration, the transmit sinks, the connection to a
  peer and save/restore.

  JavaScript numbers are modelled as \<^typ>\<open>int\<close>. The bitwise operators of JavaScript work
  on the 32-bit two's complement image of their operands; on integers of that range (all
  register values written through the 8-bit ports are) they agree with the bit operations
  that \<^typ>\<open>int\<close> has in HOL, where \<^verbatim>\<open>x << 8\<close> is \<open>push_bit 8 x\<close> and \<^verbatim>\<open>x >> 8\<close> is
  \<open>drop_bit 8 x\<close>. A condition \<^verbatim>\<open>if (x & M)\<close> is \<open>x AND M \<noteq> 0\<close>. Strings are
  \<^typ>\<open>string\<close>, so character codes are bytes.

  Calls to collaborators outside the component (the interrupt controller, the peer's
  exported functions, the host's log) are appended to the \<open>trace\<close> of the device, in
  order. The diagnostic calls \<^verbatim>\<open>printMessage\<close> and \<^verbatim>\<open>printMessageIO\<close> are left out: they
  change nothing of the device.
\<close>

subsection \<open>JavaScript values of a snapshot\<close>

datatype jsval = JUndefined | JNull | JNum int | JArr "jsval list"

datatype js_error = TypeError

text \<open>The indexed entries of a value: those of an array; a number has none. Reading a
  property of \<^verbatim>\<open>null\<close> or of \<^verbatim>\<open>undefined\<close> throws a \<^verbatim>\<open>TypeError\<close>.\<close>

fun js_entries :: "jsval \<Rightarrow> js_error + jsval list" where
  "js_entries (JArr xs) = Inr xs"
| "js_entries (JNum n) = Inr []"
| "js_entries JNull = Inl TypeError"
| "js_entries JUndefined = Inl TypeError"

text \<open>\<^verbatim>\<open>data[i]\<close>: an entry that is not there reads as \<^verbatim>\<open>undefined\<close>.\<close>

definition js_index :: "jsval list \<Rightarrow> nat \<Rightarrow> jsval" where
  "js_index xs i = (if i < length xs then xs ! i else JUndefined)"

fun num_of :: "jsval \<Rightarrow> int option" where
  "num_of (JNum n) = Some n"
| "num_of _ = None"

fun nums_of_list :: "jsval list \<Rightarrow> int list option" where
  "nums_of_list [] = Some []"
| "nums_of_list (v # vs) =
     (case num_of v of None \<Rightarrow> None
      | Some n \<Rightarrow> (case nums_of_list vs of None \<Rightarrow> None | Some ns \<Rightarrow> Some (n # ns)))"

fun nums_of :: "jsval \<Rightarrow> int list option" where
  "nums_of (JArr vs) = nums_of_list vs"
| "nums_of _ = None"

subsection \<open>Register layout\<close>

definition DL_DEFAULT :: int where "DL_DEFAULT = 0x180"

definition IER_RBR_AVAIL :: int where "IER_RBR_AVAIL = 0x01"
definition IER_THR_EMPTY :: int where "IER_THR_EMPTY = 0x02"
definition IER_LSR_DELTA :: int where "IER_LSR_DELTA = 0x04"
definition IER_MSR_DELTA :: int where "IER_MSR_DELTA = 0x08"

definition IIR_NO_INT :: int where "IIR_NO_INT = 0x01"
definition IIR_INT_LSR :: int where "IIR_INT_LSR = 0x06"
definition IIR_INT_RBR :: int where "IIR_INT_RBR = 0x04"
definition IIR_INT_THR :: int where "IIR_INT_THR = 0x02"
definition IIR_INT_MSR :: int where "IIR_INT_MSR = 0x00"
definition IIR_INT_BITS :: int where "IIR_INT_BITS = 0x06"

definition LCR_DLAB :: int where "LCR_DLAB = 0x80"

definition MCR_DTR :: int where "MCR_DTR = 0x01"
definition MCR_RTS :: int where "MCR_RTS = 0x02"

definition LSR_DR :: int where "LSR_DR = 0x01"
definition LSR_THRE :: int where "LSR_THRE = 0x20"
definition LSR_TSRE :: int where "LSR_TSRE = 0x40"

definition MSR_DCTS :: int where "MSR_DCTS = 0x01"
definition MSR_DDSR :: int where "MSR_DDSR = 0x02"
definition MSR_TERI :: int where "MSR_TERI = 0x04"
definition MSR_DRLSD :: int where "MSR_DRLSD = 0x08"
definition MSR_CTS :: int where "MSR_CTS = 0x10"
definition MSR_DSR :: int where "MSR_DSR = 0x20"
definition MSR_RI :: int where "MSR_RI = 0x40"
definition MSR_RLSD :: int where "MSR_RLSD = 0x80"

lemmas reg_defs =
  DL_DEFAULT_def IER_RBR_AVAIL_def IER_THR_EMPTY_def IER_LSR_DELTA_def IER_MSR_DELTA_def
  IIR_NO_INT_def IIR_INT_LSR_def IIR_INT_RBR_def IIR_INT_THR_def IIR_INT_MSR_def
  IIR_INT_BITS_def LCR_DLAB_def MCR_DTR_def MCR_RTS_def LSR_DR_def LSR_THRE_def
  LSR_TSRE_def MSR_DCTS_def MSR_DDSR_def MSR_TERI_def MSR_DRLSD_def MSR_CTS_def
  MSR_DSR_def MSR_RI_def MSR_RLSD_def

text \<open>The pin masks \<^verbatim>\<open>RS232.*.MASK\<close> are declared outside the component's file; the
  operations that use them take them as a parameter.\<close>

record rs232 =
  RTS_MASK :: int
  CTS_MASK :: int
  DSR_MASK :: int
  CD_MASK :: int
  DTR_MASK :: int

text \<open>The functions of the shared string library that the component calls and whose
  definitions are outside its file: \<^verbatim>\<open>str.trim\<close> and \<^verbatim>\<open>str.toASCIICode\<close>.\<close>

record strlib =
  trim :: "string \<Rightarrow> string"
  toASCIICode :: "int \<Rightarrow> string"

subsection \<open>Components, capabilities and the trace of outside calls\<close>

datatype fnref = FnRef string

record exports =
  exp_connect :: "fnref option"
  exp_receiveData :: "fnref option"
  exp_receiveStatus :: "fnref option"

record component =
  comp_id :: string
  comp_exports :: "exports option"

datatype event =
    SetIRR int int
  | ClearIRR int
  | CallConnect fnref component bool
  | CallSendData fnref "component option" int
  | CallUpdateStatus fnref "component option" int
  | Println string
  | Status string

text \<open>What resolution reads from its surroundings: the machine's \<^verbatim>\<open>connection\<close> parameter
  and the process-wide registry \<^verbatim>\<open>Component.getComponentByID\<close>.\<close>

record host =
  getMachineParm_connection :: "string option"
  getComponentByID :: "string \<Rightarrow> component option"

subsection \<open>The device\<close>

text \<open>The fields of a \<^verbatim>\<open>SerialPort\<close> object. The nine registers have type \<open>'n\<close> and the
  receive queue has type \<open>'q\<close>: numbers and a list of numbers in a working device,
  arbitrary JavaScript values right after \<^verbatim>\<open>initState\<close> has loaded a snapshot.
  \<open>chipset\<close> says whether \<^verbatim>\<open>this.chipset\<close> is set; \<open>controlIOBuffer\<close> is the text of the
  bound control, if one is bound.\<close>

record ('n, 'q) serial =
  idMachine :: string
  idComponent :: string
  nIRQ :: int
  chipset :: bool
  tabSize :: "int option"
  charBOL :: "int option"
  iLogicalCol :: int
  bMSRInit :: int
  fNullModem :: bool
  consoleOutput :: "string option"
  controlIOBuffer :: "string option"
  connection :: "component option"
  sendData :: "fnref option"
  updateStatus :: "fnref option"
  bRBR :: 'n
  bTHR :: 'n
  wDL :: 'n
  bIER :: 'n
  bIIR :: 'n
  bLCR :: 'n
  bMCR :: 'n
  bLSR :: 'n
  bMSR :: 'n
  abReceive :: 'q
  trace :: "event list"

type_synonym device = "(int, int list) serial"
type_synonym rawdevice = "(jsval, jsval) serial"

text \<open>Replacing the registers and the queue, whatever their type.\<close>

definition set_registers ::
  "'n \<Rightarrow> 'n \<Rightarrow> 'n \<Rightarrow> 'n \<Rightarrow> 'n \<Rightarrow> 'n \<Rightarrow> 'n \<Rightarrow> 'n \<Rightarrow> 'n \<Rightarrow> 'q \<Rightarrow> ('m, 'p) serial \<Rightarrow> ('n, 'q) serial" where
  "set_registers r0 r1 r2 r3 r4 r5 r6 r7 r8 q s =
     \<lparr> idMachine = idMachine s, idComponent = idComponent s, nIRQ = nIRQ s,
       chipset = chipset s, tabSize = tabSize s, charBOL = charBOL s,
       iLogicalCol = iLogicalCol s, bMSRInit = bMSRInit s, fNullModem = fNullModem s,
       consoleOutput = consoleOutput s, controlIOBuffer = controlIOBuffer s,
       connection = connection s, sendData = sendData s, updateStatus = updateStatus s,
       bRBR = r0, bTHR = r1, wDL = r2, bIER = r3, bIIR = r4, bLCR = r5, bMCR = r6,
       bLSR = r7, bMSR = r8, abReceive = q, trace = trace s \<rparr>"

text \<open>A working device as the JavaScript object it is, and back.\<close>

definition js_of :: "device \<Rightarrow> rawdevice" where
  "js_of s = set_registers (JNum (bRBR s)) (JNum (bTHR s)) (JNum (wDL s)) (JNum (bIER s))
     (JNum (bIIR s)) (JNum (bLCR s)) (JNum (bMCR s)) (JNum (bLSR s)) (JNum (bMSR s))
     (JArr (map JNum (abReceive s))) s"

definition typed_of :: "rawdevice \<Rightarrow> device option" where
  "typed_of r =
     (case nums_of (abReceive r) of None \<Rightarrow> None | Some q \<Rightarrow>
     (case num_of (bRBR r) of None \<Rightarrow> None | Some r0 \<Rightarrow>
     (case num_of (bTHR r) of None \<Rightarrow> None | Some r1 \<Rightarrow>
     (case num_of (wDL r) of None \<Rightarrow> None | Some r2 \<Rightarrow>
     (case num_of (bIER r) of None \<Rightarrow> None | Some r3 \<Rightarrow>
     (case num_of (bIIR r) of None \<Rightarrow> None | Some r4 \<Rightarrow>
     (case num_of (bLCR r) of None \<Rightarrow> None | Some r5 \<Rightarrow>
     (case num_of (bMCR r) of None \<Rightarrow> None | Some r6 \<Rightarrow>
     (case num_of (bLSR r) of None \<Rightarrow> None | Some r7 \<Rightarrow>
     (case num_of (bMSR r) of None \<Rightarrow> None | Some r8 \<Rightarrow>
        Some (set_registers r0 r1 r2 r3 r4 r5 r6 r7 r8 q r)))))))))))"

subsection \<open>Reset, save and restore\<close>

text \<open>\<^verbatim>\<open>initState(data)\<close> takes the reset values when \<^verbatim>\<open>data\<close> is \<^verbatim>\<open>undefined\<close> (the test is
  \<^verbatim>\<open>data === undefined\<close>, which \<^verbatim>\<open>null\<close> does not pass), reads ten entries of \<^verbatim>\<open>data\<close> by
  position and returns \<^verbatim>\<open>true\<close>. The first read throws when \<^verbatim>\<open>data\<close> is \<^verbatim>\<open>null\<close>; nothing
  has been assigned by then.\<close>

definition initState :: "jsval \<Rightarrow> ('n, 'q) serial \<Rightarrow> js_error + bool \<times> rawdevice" where
  "initState data0 s =
     (let data = (if data0 = JUndefined
                  then JArr [JNum 0, JNum 0, JNum DL_DEFAULT, JNum 0, JNum IIR_NO_INT,
                             JNum 0, JNum 0, JNum (LSR_THRE OR LSR_TSRE),
                             JNum (bMSRInit s), JArr []]
                  else data0)
      in case js_entries data of
           Inl e \<Rightarrow> Inl e
         | Inr xs \<Rightarrow>
             Inr (True,
                  set_registers (js_index xs 0) (js_index xs 1) (js_index xs 2)
                    (js_index xs 3) (js_index xs 4) (js_index xs 5) (js_index xs 6)
                    (js_index xs 7) (js_index xs 8) (js_index xs 9) s))"

text \<open>\<^verbatim>\<open>reset()\<close> is \<^verbatim>\<open>this.initState()\<close>, its result dropped.\<close>

definition reset :: "('n, 'q) serial \<Rightarrow> js_error + rawdevice" where
  "reset s = (case initState JUndefined s of Inl e \<Rightarrow> Inl e | Inr (ok, r) \<Rightarrow> Inr r)"

definition saveRegisters :: "rawdevice \<Rightarrow> jsval" where
  "saveRegisters r =
     JArr [bRBR r, bTHR r, wDL r, bIER r, bIIR r, bLCR r, bMCR r, bLSR r, bMSR r, abReceive r]"

text \<open>\<^verbatim>\<open>restore(data)\<close> hands \<^verbatim>\<open>data[0]\<close> to \<^verbatim>\<open>initState\<close>; \<^verbatim>\<open>data\<close> is the array that
  \<^verbatim>\<open>save\<close> built with the registers as its entry 0.\<close>

definition restore :: "jsval list \<Rightarrow> ('n, 'q) serial \<Rightarrow> js_error + bool \<times> rawdevice" where
  "restore data s = initState (js_index data 0) s"

definition save :: "rawdevice \<Rightarrow> jsval list" where
  "save r = [saveRegisters r]"

subsection \<open>Interrupt arbitration\<close>

definition updateIRR :: "device \<Rightarrow> device" where
  "updateIRR s =
     (let b = (if bLSR s AND LSR_DR \<noteq> 0 \<and> bIER s AND IER_RBR_AVAIL \<noteq> 0 then IIR_INT_RBR
               else if bMSR s AND (MSR_DCTS OR MSR_DDSR) \<noteq> 0 \<and> bIER s AND IER_MSR_DELTA \<noteq> 0
                    then IIR_INT_MSR
               else - 1)
      in if b \<ge> 0
         then (let s1 = s\<lparr>bIIR := (bIIR s AND NOT (IIR_NO_INT OR IIR_INT_BITS)) OR b\<rparr>
               in if chipset s1 \<and> nIRQ s1 \<noteq> 0
                  then s1\<lparr>trace := trace s1 @ [SetIRR (nIRQ s1) 100]\<rparr> else s1)
         else (let s1 = s\<lparr>bIIR := bIIR s OR IIR_NO_INT\<rparr>
               in if chipset s1 \<and> nIRQ s1 \<noteq> 0
                  then s1\<lparr>trace := trace s1 @ [ClearIRR (nIRQ s1)]\<rparr> else s1))"

subsection \<open>The receive path\<close>

definition advanceRBR :: "device \<Rightarrow> device" where
  "advanceRBR s =
     updateIRR
       (case abReceive s of
          [] \<Rightarrow> s
        | b # rest \<Rightarrow>
            if \<not> (bLSR s AND LSR_DR \<noteq> 0)
            then s\<lparr>bRBR := b, abReceive := rest, bLSR := bLSR s OR LSR_DR\<rparr>
            else s)"

text \<open>The argument of \<^verbatim>\<open>receiveData\<close>: a number, a string or an array of numbers.\<close>

datatype rxdata = RxNumber int | RxString string | RxArray "int list"

fun receiveData :: "rxdata \<Rightarrow> device \<Rightarrow> bool \<times> device" where
  "receiveData (RxNumber n) s = (True, advanceRBR (s\<lparr>abReceive := abReceive s @ [n]\<rparr>))"
| "receiveData (RxString str) s =
     (True, advanceRBR (s\<lparr>abReceive := abReceive s @ map of_char str\<rparr>))"
| "receiveData (RxArray xs) s = (True, advanceRBR (s\<lparr>abReceive := abReceive s @ xs\<rparr>))"

definition receiveStatus :: "rs232 \<Rightarrow> int \<Rightarrow> device \<Rightarrow> device" where
  "receiveStatus rs pins s =
     (let bMSROld = bMSR s;
          m0 = bMSR s AND NOT (MSR_CTS OR MSR_DSR);
          m1 = (if pins AND CTS_MASK rs \<noteq> 0 then m0 OR (MSR_CTS OR MSR_DCTS) else m0);
          m2 = (if pins AND DSR_MASK rs \<noteq> 0 then m1 OR (MSR_DSR OR MSR_DDSR) else m1);
          s1 = s\<lparr>bMSR := m2\<rparr>
      in if bMSROld \<noteq> m2 then updateIRR s1 else s1)"

subsection \<open>Port reads\<close>

definition inRBR :: "device \<Rightarrow> int \<times> device" where
  "inRBR s =
     (let b = (if bLCR s AND LCR_DLAB \<noteq> 0 then wDL s AND 0xff else bRBR s)
      in (b, advanceRBR (s\<lparr>bLSR := bLSR s AND NOT LSR_DR\<rparr>)))"

definition inIER :: "device \<Rightarrow> int \<times> device" where
  "inIER s = ((if bLCR s AND LCR_DLAB \<noteq> 0 then drop_bit 8 (wDL s) else bIER s), s)"

definition inIIR :: "device \<Rightarrow> int \<times> device" where
  "inIIR s = (bIIR s, s)"

definition inLCR :: "device \<Rightarrow> int \<times> device" where
  "inLCR s = (bLCR s, s)"

definition inMCR :: "device \<Rightarrow> int \<times> device" where
  "inMCR s = (bMCR s, s)"

definition inLSR :: "device \<Rightarrow> int \<times> device" where
  "inLSR s = (bLSR s, s)"

definition inMSR :: "device \<Rightarrow> int \<times> device" where
  "inMSR s = (bMSR s, s\<lparr>bMSR := bMSR s AND NOT (MSR_DCTS OR MSR_DDSR)\<rparr>)"

subsection \<open>The transmit sinks\<close>

text \<open>JavaScript's \<^verbatim>\<open>%\<close> takes the sign of the dividend.\<close>

definition js_rem :: "int \<Rightarrow> int \<Rightarrow> int" where
  "js_rem a b = sgn a * (\<bar>a\<bar> mod \<bar>b\<bar>)"

text \<open>Modelled from the spec: \<^verbatim>\<open>str.pad\<close> of the shared string library, which is not in the
  component's file. The spec has the tab "expand to tabWidth - (column % tabWidth)
  positions": padding a string to \<open>n\<close> characters appends spaces up to that length.\<close>

definition str_pad :: "string \<Rightarrow> int \<Rightarrow> string" where
  "str_pad s n = s @ replicate (nat n - length s) (CHR '' '')"

text \<open>\<^verbatim>\<open>x || 8\<close> and \<^verbatim>\<open>if (x)\<close> for an optional number: absent and 0 are falsy.\<close>

fun truthy :: "int option \<Rightarrow> bool" where
  "truthy None = False"
| "truthy (Some n) = (n \<noteq> 0)"

fun num_or :: "int option \<Rightarrow> int \<Rightarrow> int" where
  "num_or None d = d"
| "num_or (Some n) d = (if n \<noteq> 0 then n else d)"

text \<open>The echo surface (\<^verbatim>\<open>controlIOBuffer\<close>): \<open>v\<close> is the text of the control. The result is
  the new text and the new logical column.\<close>

definition echoByte :: "strlib \<Rightarrow> int option \<Rightarrow> int option \<Rightarrow> int \<Rightarrow> string \<Rightarrow> int \<Rightarrow> string \<times> int" where
  "echoByte lib tab bol b v col =
     (if b = 0x0D then (v, 0)
      else if b = 0x08 then (butlast v, (if col > 0 then col - 1 else col))
      else
        (let s0 = toASCIICode lib b;
             n0 = int (length s0);
             n1 = (if b < 0x20 \<and> n0 = 1 then 0 else n0);
             tabSize' = num_or tab 8;
             nChars = (if b = 0x09 then tabSize' - js_rem col tabSize' else n1);
             s1 = (if b = 0x09 \<and> truthy tab then str_pad [] nChars else s0);
             s2 = (if truthy bol \<and> col = 0 \<and> nChars \<noteq> 0
                   then char_of (num_or bol 0) # s1 else s1)
         in (v @ s2, col + nChars)))"

text \<open>\<open>accepted\<close> is what the peer's receive function answers when it is called.\<close>

definition transmitByte :: "strlib \<Rightarrow> bool \<Rightarrow> int \<Rightarrow> device \<Rightarrow> bool \<times> device" where
  "transmitByte lib accepted b s =
     (let (f1, s1) = (case sendData s of
                        None \<Rightarrow> (False, s)
                      | Some fn \<Rightarrow>
                          (accepted, s\<lparr>trace := trace s @ [CallSendData fn (connection s) b]\<rparr>))
      in case controlIOBuffer s1 of
           Some v \<Rightarrow>
             (let (v', col') = echoByte lib (tabSize s1) (charBOL s1) b v (iLogicalCol s1)
              in (True, s1\<lparr>controlIOBuffer := Some v', iLogicalCol := col'\<rparr>))
         | None \<Rightarrow>
             (case consoleOutput s1 of
                Some out \<Rightarrow>
                  (let flush = (b = 0x0A \<or> length out \<ge> 1024);
                       s2 = (if flush then s1\<lparr>trace := trace s1 @ [Println out]\<rparr> else s1);
                       out1 = (if flush then [] else out);
                       out2 = (if b \<noteq> 0x0A then out1 @ [char_of b] else out1)
                   in (True, s2\<lparr>consoleOutput := Some out2\<rparr>))
              | None \<Rightarrow> (f1, s1)))"

subsection \<open>Port writes\<close>

definition outTHR :: "strlib \<Rightarrow> bool \<Rightarrow> int \<Rightarrow> device \<Rightarrow> device" where
  "outTHR lib accepted bOut s =
     (if bLCR s AND LCR_DLAB \<noteq> 0
      then s\<lparr>wDL := (wDL s AND NOT 0xff) OR bOut\<rparr>
      else (let s1 = s\<lparr>bTHR := bOut, bLSR := bLSR s AND NOT (LSR_THRE OR LSR_TSRE)\<rparr>;
                (ok, s2) = transmitByte lib accepted bOut s1
            in if ok then s2\<lparr>bLSR := bLSR s2 OR (LSR_THRE OR LSR_TSRE)\<rparr> else s2))"

definition outIER :: "int \<Rightarrow> device \<Rightarrow> device" where
  "outIER bOut s =
     (if bLCR s AND LCR_DLAB \<noteq> 0
      then s\<lparr>wDL := (wDL s AND 0xff) OR push_bit 8 bOut\<rparr>
      else s\<lparr>bIER := bOut\<rparr>)"

definition outLCR :: "int \<Rightarrow> device \<Rightarrow> device" where
  "outLCR bOut s = s\<lparr>bLCR := bOut\<rparr>"

text \<open>The pins handed to the peer when DTR or RTS changed.\<close>

definition mcr_pins :: "rs232 \<Rightarrow> bool \<Rightarrow> int \<Rightarrow> int" where
  "mcr_pins rs nullModem bOut =
     (if nullModem
      then (0 OR (if bOut AND MCR_RTS \<noteq> 0 then CTS_MASK rs else 0))
             OR (if bOut AND MCR_DTR \<noteq> 0 then DSR_MASK rs OR CD_MASK rs else 0)
      else (0 OR (if bOut AND MCR_RTS \<noteq> 0 then RTS_MASK rs else 0))
             OR (if bOut AND MCR_DTR \<noteq> 0 then DTR_MASK rs else 0))"

definition outMCR :: "rs232 \<Rightarrow> int \<Rightarrow> device \<Rightarrow> device" where
  "outMCR rs bOut s =
     (let delta = bOut XOR bMCR s;
          s1 = s\<lparr>bMCR := bOut\<rparr>
      in if delta AND (MCR_DTR OR MCR_RTS) \<noteq> 0
         then (case updateStatus s1 of
                 None \<Rightarrow> s1
               | Some fn \<Rightarrow>
                   s1\<lparr>trace := trace s1 @
                        [CallUpdateStatus fn (connection s1) (mcr_pins rs (fNullModem s1) bOut)]\<rparr>)
         else s1)"

subsection \<open>The port tables\<close>

text \<open>\<^verbatim>\<open>aPortInput\<close> has the offsets 0 to 6 and \<^verbatim>\<open>aPortOutput\<close> the offsets 0, 1, 3 and 4; an
  offset that is not in the table does not reach the device.\<close>

definition portInput :: "nat \<Rightarrow> device \<Rightarrow> (int \<times> device) option" where
  "portInput off s =
     (if off = 0 then Some (inRBR s)
      else if off = 1 then Some (inIER s)
      else if off = 2 then Some (inIIR s)
      else if off = 3 then Some (inLCR s)
      else if off = 4 then Some (inMCR s)
      else if off = 5 then Some (inLSR s)
      else if off = 6 then Some (inMSR s)
      else None)"

definition portOutput :: "strlib \<Rightarrow> rs232 \<Rightarrow> bool \<Rightarrow> nat \<Rightarrow> int \<Rightarrow> device \<Rightarrow> device option" where
  "portOutput lib rs accepted off bOut s =
     (if off = 0 then Some (outTHR lib accepted bOut s)
      else if off = 1 then Some (outIER bOut s)
      else if off = 3 then Some (outLCR bOut s)
      else if off = 4 then Some (outMCR rs bOut s)
      else None)"

subsection \<open>Connections\<close>

text \<open>\<^verbatim>\<open>sConnection.split('->')\<close>.\<close>

fun split_arrow :: "string \<Rightarrow> string \<Rightarrow> string list" where
  "split_arrow acc [] = [rev acc]"
| "split_arrow acc [c] = [rev (c # acc)]"
| "split_arrow acc (c # d # cs) =
     (if c = CHR ''-'' \<and> d = CHR ''>'' then rev acc # split_arrow [] cs
      else split_arrow (c # acc) (d # cs))"

text \<open>The call of the target's \<^verbatim>\<open>connect\<close> is recorded in the trace. When the target is a
  serial port of this kind, that call is its own \<^verbatim>\<open>initConnection\<close>, which may call back
  into this one; by then \<^verbatim>\<open>this.connection\<close> is set.\<close>

definition initConnection :: "strlib \<Rightarrow> host \<Rightarrow> bool \<Rightarrow> ('n, 'q) serial \<Rightarrow> ('n, 'q) serial" where
  "initConnection lib h fNullModem' s =
     (case connection s of
        Some c \<Rightarrow> s
      | None \<Rightarrow>
          (case getMachineParm_connection h of
             None \<Rightarrow> s
           | Some sConnection \<Rightarrow>
               if sConnection = [] then s
               else
                 (let unable = (\<lambda>s'. s'\<lparr>trace := trace s' @
                                  [Status (''Unable to establish connection: '' @ sConnection)]\<rparr>)
                  in case split_arrow [] sConnection of
                       [p0, p1] \<Rightarrow>
                         (let sSourceID = trim lib p0
                          in if sSourceID \<noteq> idComponent s then s
                             else
                               (let sTargetID = trim lib p1;
                                    s1 = s\<lparr>connection := getComponentByID h sTargetID\<rparr>
                                in case connection s1 of
                                     None \<Rightarrow> unable s1
                                   | Some c \<Rightarrow>
                                       (case comp_exports c of
                                          None \<Rightarrow> unable s1
                                        | Some ex \<Rightarrow>
                                            (let s2 = (case exp_connect ex of
                                                         None \<Rightarrow> s1
                                                       | Some f \<Rightarrow>
                                                           s1\<lparr>trace := trace s1 @
                                                                [CallConnect f c (fNullModem s1)]\<rparr>);
                                                 s3 = s2\<lparr>sendData := exp_receiveData ex\<rparr>
                                             in case sendData s3 of
                                                  None \<Rightarrow> unable s3
                                                | Some f \<Rightarrow>
                                                    s3\<lparr>fNullModem := fNullModem',
                                                       updateStatus := exp_receiveStatus ex,
                                                       trace := trace s3 @
                                                         [Status (idMachine s3 @ ''.'' @ sSourceID
                                                            @ '' connected to '' @ sTargetID)]\<rparr>))))
                     | _ \<Rightarrow> unable s)))"

text \<open>\<^verbatim>\<open>attachMouse(id, mouse, fnUpdate)\<close>: the result says whether the mouse was attached
  (the source returns the component, or null).\<close>

definition attachMouse :: "string \<Rightarrow> component \<Rightarrow> fnref \<Rightarrow> ('n, 'q) serial \<Rightarrow> bool \<times> ('n, 'q) serial" where
  "attachMouse ident mouse fnUpdate s =
     (if ident = idComponent s \<and> connection s = None
      then (True, s\<lparr>connection := Some mouse, updateStatus := Some fnUpdate, fNullModem := False\<rparr>)
      else (False, s))"

text \<open>\<^verbatim>\<open>setBinding\<close> binds a control as the echo surface when the binding is named
  \<^verbatim>\<open>buffer\<close>; \<open>text\<close> is what the control shows at that moment. \<^verbatim>\<open>initBus\<close> looks the
  interrupt controller up; \<open>found\<close> says whether the machine has one.\<close>

definition setBinding :: "string \<Rightarrow> string \<Rightarrow> ('n, 'q) serial \<Rightarrow> bool \<times> ('n, 'q) serial" where
  "setBinding sBinding text s =
     (if sBinding = ''buffer'' then (True, s\<lparr>controlIOBuffer := Some text\<rparr>) else (False, s))"

definition initBus :: "bool \<Rightarrow> ('n, 'q) serial \<Rightarrow> ('n, 'q) serial" where
  "initBus found s = s\<lparr>chipset := found\<rparr>"

subsection \<open>Concrete devices and parameters\<close>

text \<open>The first adapter as its constructor leaves it (registers not yet assigned), wired to
  an interrupt controller on line 4, and the same device after \<^verbatim>\<open>reset\<close>.\<close>

definition com1 :: rawdevice where
  "com1 = \<lparr> idMachine = ''pc'', idComponent = ''com1'', nIRQ = 4, chipset = True,
     tabSize = None, charBOL = None, iLogicalCol = 0, bMSRInit = MSR_CTS OR MSR_DSR,
     fNullModem = True, consoleOutput = None, controlIOBuffer = None, connection = None,
     sendData = None, updateStatus = None, bRBR = JUndefined, bTHR = JUndefined,
     wDL = JUndefined, bIER = JUndefined, bIIR = JUndefined, bLCR = JUndefined,
     bMCR = JUndefined, bLSR = JUndefined, bMSR = JUndefined, abReceive = JUndefined,
     trace = [] \<rparr>"

definition com1_ready :: device where
  "com1_ready = set_registers 0 0 0x180 0 1 0 0 0x60 0x30 [] com1"

text \<open>Three states of it: a byte staged with the receive interrupt enabled, a CTS change
  with the modem-status interrupt enabled, and a trailing-edge-ring bit set with the
  modem-status interrupt enabled.\<close>

definition rx_pending :: device where
  "rx_pending = com1_ready\<lparr>bRBR := 0x41, bIER := IER_RBR_AVAIL, bLSR := 0x61\<rparr>"

definition cts_pending :: device where
  "cts_pending = com1_ready\<lparr>bIER := IER_MSR_DELTA, bMSR := 0x31\<rparr>"

definition teri_pending :: device where
  "teri_pending = com1_ready\<lparr>bIER := IER_MSR_DELTA, bMSR := 0x34\<rparr>"

definition rs232_masks :: rs232 where
  "rs232_masks = \<lparr> RTS_MASK = 0x10, CTS_MASK = 0x20, DSR_MASK = 0x40, CD_MASK = 0x100,
     DTR_MASK = 0x100000 \<rparr>"

definition trim_spaces :: "string \<Rightarrow> string" where
  "trim_spaces s =
     rev (dropWhile (\<lambda>c. c = CHR '' '') (rev (dropWhile (\<lambda>c. c = CHR '' '') s)))"

text \<open>A string library whose \<^verbatim>\<open>toASCIICode\<close> is \<^verbatim>\<open>String.fromCharCode\<close>, which the source
  names as the former definition of the local \<^verbatim>\<open>s\<close> in \<^verbatim>\<open>transmitByte\<close>.\<close>

definition ascii_lib :: strlib where
  "ascii_lib = \<lparr> trim = trim_spaces, toASCIICode = (\<lambda>b. [char_of b]) \<rparr>"

text \<open>A second serial port as the registry shows it, the machine parameter that links
  \<open>com1\<close> to it, and \<open>com1\<close> once linked.\<close>

definition peer_com2 :: component where
  "peer_com2 = \<lparr> comp_id = ''pc2.com2'',
     comp_exports = Some \<lparr> exp_connect = Some (FnRef ''pc2.com2.initConnection''),
       exp_receiveData = Some (FnRef ''pc2.com2.receiveData''),
       exp_receiveStatus = Some (FnRef ''pc2.com2.receiveStatus'') \<rparr> \<rparr>"

definition link_host :: host where
  "link_host = \<lparr> getMachineParm_connection = Some ''com1 -> pc2.com2'',
     getComponentByID = (\<lambda>i. if i = ''pc2.com2'' then Some peer_com2 else None) \<rparr>"

definition com1_linked :: device where
  "com1_linked = com1_ready\<lparr> connection := Some peer_com2,
     sendData := Some (FnRef ''pc2.com2.receiveData''),
     updateStatus := Some (FnRef ''pc2.com2.receiveStatus''),
     trace := [CallConnect (FnRef ''pc2.com2.initConnection'') peer_com2 True,
               Status ''pc.com1 connected to pc2.com2''] \<rparr>"

text \<open>\<open>com1\<close> with a control bound as its echo surface, showing \<open>ab\<close> in column 2.\<close>

definition com1_echo :: device where
  "com1_echo = com1_ready\<lparr> controlIOBuffer := Some ''ab'', iLogicalCol := 2 \<rparr>"

text \<open>\<open>com1\<close> with the divisor latch made accessible.\<close>

definition com1_dlab :: device where
  "com1_dlab = com1_ready\<lparr> bLCR := LCR_DLAB \<rparr>"

text \<open>\<open>com1\<close> with a serial mouse attached, and the echo surface with a tab width of 4.\<close>

definition serial_mouse :: component where
  "serial_mouse = \<lparr> comp_id = ''pc.mouse'', comp_exports = None \<rparr>"

definition com1_mouse :: device where
  "com1_mouse = com1_ready\<lparr> connection := Some serial_mouse,
     updateStatus := Some (FnRef ''pc.mouse.receiveStatus''), fNullModem := False \<rparr>"

definition com1_echo_tab4 :: device where
  "com1_echo_tab4 = com1_echo\<lparr> tabSize := Some 4 \<rparr>"

text \<open>\<open>com1\<close> bound to the console log, and \<open>com1\<close> with the receive interrupt enabled.\<close>

definition com1_console :: device where
  "com1_console = com1_ready\<lparr> consoleOutput := Some [] \<rparr>"

definition com1_rx_enabled :: device where
  "com1_rx_enabled = com1_ready\<lparr> bIER := IER_RBR_AVAIL \<rparr>"

subsection \<open>Sequences of operations\<close>

text \<open>The bytes that an argument of \<^verbatim>\<open>receiveData\<close> carries.\<close>

fun bytes_of :: "rxdata \<Rightarrow> int list" where
  "bytes_of (RxNumber n) = [n]"
| "bytes_of (RxString str) = map of_char str"
| "bytes_of (RxArray xs) = xs"

fun receive_all :: "rxdata list \<Rightarrow> device \<Rightarrow> device" where
  "receive_all [] s = s"
| "receive_all (d # ds) s = receive_all ds (snd (receiveData d s))"

text \<open>A port write is an offset, the value and, should the write transmit to a peer, the
  peer's answer. A write to an offset outside the output table leaves the device as it is.\<close>

type_synonym port_write = "nat \<times> int \<times> bool"

fun apply_writes :: "strlib \<Rightarrow> rs232 \<Rightarrow> port_write list \<Rightarrow> device \<Rightarrow> device" where
  "apply_writes lib rs [] s = s"
| "apply_writes lib rs ((off, b, accepted) # ws) s =
     apply_writes lib rs ws
       (case portOutput lib rs accepted off b s of None \<Rightarrow> s | Some s' \<Rightarrow> s')"

fun mcr_writes :: "rs232 \<Rightarrow> int list \<Rightarrow> device \<Rightarrow> device" where
  "mcr_writes rs [] s = s"
| "mcr_writes rs (b # bs) s = mcr_writes rs bs (outMCR rs b s)"

text \<open>Everything that can be done to a working device short of reset and restore.\<close>

datatype operation =
    PortIn nat
  | PortOut nat int bool
  | ReceiveData rxdata
  | ReceiveStatus int
  | InitConnection host bool
  | AttachMouse string component fnref
  | SetBinding string string
  | InitBus bool

fun step :: "strlib \<Rightarrow> rs232 \<Rightarrow> operation \<Rightarrow> device \<Rightarrow> device" where
  "step lib rs (PortIn off) s = (case portInput off s of None \<Rightarrow> s | Some (b, s') \<Rightarrow> s')"
| "step lib rs (PortOut off b accepted) s =
     (case portOutput lib rs accepted off b s of None \<Rightarrow> s | Some s' \<Rightarrow> s')"
| "step lib rs (ReceiveData d) s = snd (receiveData d s)"
| "step lib rs (ReceiveStatus pins) s = receiveStatus rs pins s"
| "step lib rs (InitConnection h f) s = initConnection lib h f s"
| "step lib rs (AttachMouse ident mouse fn) s = snd (attachMouse ident mouse fn s)"
| "step lib rs (SetBinding sBinding text) s = snd (setBinding sBinding text s)"
| "step lib rs (InitBus found) s = initBus found s"

text \<open>The constructor sets \<^verbatim>\<open>bMSRInit\<close> to CTS and DSR, and nothing assigns it again. That
  is all a device has to satisfy before its first reset here: by then the bus may be
  attached, a control bound and the connection resolved (\<^verbatim>\<open>powerUp\<close> calls
  \<^verbatim>\<open>initConnection\<close> before \<^verbatim>\<open>reset\<close>).\<close>

definition constructed :: "rawdevice \<Rightarrow> bool" where
  "constructed d = (bMSRInit d = (MSR_CTS OR MSR_DSR))"

text \<open>The states reachable from a hardware reset without a restore.\<close>

inductive reachable :: "strlib \<Rightarrow> rs232 \<Rightarrow> device \<Rightarrow> bool" for lib :: strlib and rs :: rs232 where
  reach_reset:
    "constructed d \<Longrightarrow> reset d = Inr r \<Longrightarrow> typed_of r = Some s \<Longrightarrow> reachable lib rs s"
| reach_step: "reachable lib rs s \<Longrightarrow> reachable lib rs (step lib rs op s)"
| reach_reset_again:
    "reachable lib rs s \<Longrightarrow> reset s = Inr r \<Longrightarrow> typed_of r = Some s' \<Longrightarrow>
     reachable lib rs s'"

text \<open>The invariant that these states keep.\<close>

definition ring_inv :: "device \<Rightarrow> bool" where
  "ring_inv s = (bMSRInit s = (MSR_CTS OR MSR_DSR) \<and> bMSR s AND (MSR_TERI OR MSR_DRLSD) = 0)"

subsection \<open>The control lines as the spec words them\<close>

text \<open>DTR is bit 0 and RTS is bit 1 of \<open>mcr\<close>. In null-modem mode RTS is seen by the peer
  as clear-to-send and DTR as data-set-ready plus carrier-detect; straight through, RTS
  is RTS and DTR is DTR.\<close>

definition dtr_rts_changed :: "int \<Rightarrow> int \<Rightarrow> bool" where
  "dtr_rts_changed old new = (bit new 0 \<noteq> bit old 0 \<or> bit new 1 \<noteq> bit old 1)"

definition crossover_pins :: "rs232 \<Rightarrow> int \<Rightarrow> int" where
  "crossover_pins rs b =
     (if bit b 1 then CTS_MASK rs else 0) OR (if bit b 0 then DSR_MASK rs OR CD_MASK rs else 0)"

definition straight_pins :: "rs232 \<Rightarrow> int \<Rightarrow> int" where
  "straight_pins rs b =
     (if bit b 1 then RTS_MASK rs else 0) OR (if bit b 0 then DTR_MASK rs else 0)"

fun expected_status :: "rs232 \<Rightarrow> bool \<Rightarrow> int \<Rightarrow> int list \<Rightarrow> int list" where
  "expected_status rs nullModem old [] = []"
| "expected_status rs nullModem old (b # bs) =
     (if dtr_rts_changed old b
      then [if nullModem then crossover_pins rs b else straight_pins rs b] else [])
     @ expected_status rs nullModem b bs"

subsection \<open>The tab on the echo surface as the spec words it\<close>

text \<open>The number of positions to the next tab stop, and the beginning-of-line character
  that is put in front of visible output in column 0.\<close>

definition tab_stop :: "int \<Rightarrow> int \<Rightarrow> int" where
  "tab_stop width col = width - js_rem col width"

definition bol_text :: "device \<Rightarrow> int \<Rightarrow> string" where
  "bol_text s nChars =
     (if truthy (charBOL s) \<and> iLogicalCol s = 0 \<and> nChars \<noteq> 0
      then [char_of (num_or (charBOL s) 0)] else [])"

section \<open>Properties\<close>

subsection \<open>Masks\<close>

lemma and_not_self: "(x AND NOT m) AND m = (0::int)"
  by (simp add: bit_eq_iff bit_simps)

lemma or_and_self: "(x OR m) AND m = (m::int)"
  by (auto simp add: bit_eq_iff bit_simps)

lemma field_set: "((x AND NOT m) OR c) AND m = c AND (m::int)"
  by (auto simp add: bit_eq_iff bit_simps)

lemma and_not_other: "m AND k = 0 \<Longrightarrow> (x AND NOT m) AND k = x AND (k::int)"
  by (auto simp add: bit_eq_iff bit_simps)

lemma or_other: "m AND k = 0 \<Longrightarrow> (x OR m) AND k = x AND (k::int)"
  by (auto simp add: bit_eq_iff bit_simps)

lemma and_not_idem: "(x AND NOT m) AND NOT m = x AND NOT (m::int)"
  by (auto simp add: bit_eq_iff bit_simps)

lemma or_and_not_self: "(x OR m) AND NOT m = x AND NOT (m::int)"
  by (auto simp add: bit_eq_iff bit_simps)

lemma and_not_keeps: "k AND m = 0 \<Longrightarrow> (x AND NOT m) AND (x AND k) = x AND (k::int)"
  by (auto simp add: bit_eq_iff bit_simps)

lemma or_keeps: "y AND z = z \<Longrightarrow> (y OR c) AND z = (z::int)"
  by (auto simp add: bit_eq_iff bit_simps)

lemma byte_low: "0 \<le> b \<Longrightarrow> b < 256 \<Longrightarrow> ((w AND NOT 0xff) OR b) AND 0xff = (b::int)"
proof -
  assume "0 \<le> b" "b < 256"
  then have "take_bit 8 b = b" by (simp add: take_bit_int_eq_self)
  then have "b AND 0xff = b" by (simp add: take_bit_eq_mask mask_eq_exp_minus_1)
  then show ?thesis using field_set[of w "0xff" b] by simp
qed

lemma byte_high:
  "0 \<le> b \<Longrightarrow> b < 256 \<Longrightarrow> drop_bit 8 ((w AND NOT 0xff) OR b) = drop_bit 8 (w::int)"
proof -
  assume "0 \<le> b" "b < 256"
  then have "take_bit 8 b = b" by (simp add: take_bit_int_eq_self)
  then have "drop_bit 8 b = 0"
    by (metis drop_bit_take_bit diff_self_eq_0 take_bit_0 drop_bit_of_0)
  moreover have "drop_bit 8 (w AND NOT 0xff) = drop_bit 8 w"
    by (simp add: bit_eq_iff bit_simps)
  ultimately show ?thesis by (simp add: drop_bit_or del: bit.de_Morgan_disj)
qed

subsection \<open>Reset\<close>

text \<open>A reset never throws: it loads the reset values.\<close>

lemma reset_loads_defaults:
  "reset s = Inr (set_registers (JNum 0) (JNum 0) (JNum DL_DEFAULT) (JNum 0) (JNum IIR_NO_INT)
     (JNum 0) (JNum 0) (JNum (LSR_THRE OR LSR_TSRE)) (JNum (bMSRInit s)) (JArr []) s)"
  by (simp add: reset_def initState_def js_index_def)

lemma reset_com1: "reset com1 = Inr (js_of com1_ready)"
  by (simp add: reset_loads_defaults js_of_def com1_ready_def set_registers_def com1_def
      reg_defs)

lemma typed_of_com1_ready: "typed_of (js_of com1_ready) = Some com1_ready"
  by (simp add: typed_of_def js_of_def com1_ready_def set_registers_def com1_def)

subsection \<open>Interrupt arbitration\<close>

lemma updateIRR_frame [simp]:
  "bLSR (updateIRR s) = bLSR s" "bMSR (updateIRR s) = bMSR s" "bIER (updateIRR s) = bIER s"
  "bRBR (updateIRR s) = bRBR s" "abReceive (updateIRR s) = abReceive s"
  "bLCR (updateIRR s) = bLCR s" "bMCR (updateIRR s) = bMCR s" "bTHR (updateIRR s) = bTHR s"
  "wDL (updateIRR s) = wDL s" "bMSRInit (updateIRR s) = bMSRInit s"
  by (simp_all add: updateIRR_def Let_def)

text \<open>
  C1, as stated, fails: the trailing-edge-ring and delta-RLSD bits of \<open>msr\<close> are not among
  the bits \<^verbatim>\<open>updateIRR\<close> tests. With only TERI set and the modem-status interrupt enabled,
  \<open>iir\<close> gets its "no interrupt" bit and the line is cleared.
\<close>

theorem updateIRR_teri_counterexample:
  "bLSR teri_pending AND LSR_DR = 0 \<and>
   bMSR teri_pending AND (MSR_DCTS OR MSR_DDSR OR MSR_TERI OR MSR_DRLSD) \<noteq> 0 \<and>
   bIER teri_pending AND IER_MSR_DELTA \<noteq> 0 \<and>
   bIIR (updateIRR teri_pending) AND (IIR_NO_INT OR IIR_INT_BITS) \<noteq> IIR_INT_MSR \<and>
   bIIR (updateIRR teri_pending) AND IIR_NO_INT = IIR_NO_INT \<and>
   trace (updateIRR teri_pending) = [ClearIRR 4]"
  by (simp add: updateIRR_def teri_pending_def com1_ready_def com1_def set_registers_def
      reg_defs)

text \<open>
  C1 (amended): on a device wired to an interrupt controller (\<^verbatim>\<open>this.chipset\<close> set, a
  nonzero line number), after \<^verbatim>\<open>updateIRR\<close>: if \<open>lsr.DR\<close> is set and the receive-available
  enable bit of \<open>ier\<close> is set, \<open>iir\<close> encodes the receive-data-available condition;
  otherwise, if delta-CTS or delta-DSR of \<open>msr\<close> is set and the modem-status enable bit of
  \<open>ier\<close> is set, \<open>iir\<close> encodes the modem-status condition; in both cases the line is
  asserted with the delay 100. If neither holds, the "no interrupt" bit of \<open>iir\<close> is set
  and the line is cleared.
\<close>

theorem updateIRR_arbitration:
  assumes "chipset s" and "nIRQ s \<noteq> 0"
  shows "(bLSR s AND LSR_DR \<noteq> 0 \<and> bIER s AND IER_RBR_AVAIL \<noteq> 0 \<longrightarrow>
            bIIR (updateIRR s) AND (IIR_NO_INT OR IIR_INT_BITS) = IIR_INT_RBR \<and>
            trace (updateIRR s) = trace s @ [SetIRR (nIRQ s) 100]) \<and>
         (\<not> (bLSR s AND LSR_DR \<noteq> 0 \<and> bIER s AND IER_RBR_AVAIL \<noteq> 0) \<and>
          bMSR s AND (MSR_DCTS OR MSR_DDSR) \<noteq> 0 \<and> bIER s AND IER_MSR_DELTA \<noteq> 0 \<longrightarrow>
            bIIR (updateIRR s) AND (IIR_NO_INT OR IIR_INT_BITS) = IIR_INT_MSR \<and>
            trace (updateIRR s) = trace s @ [SetIRR (nIRQ s) 100]) \<and>
         (\<not> (bLSR s AND LSR_DR \<noteq> 0 \<and> bIER s AND IER_RBR_AVAIL \<noteq> 0) \<and>
          \<not> (bMSR s AND (MSR_DCTS OR MSR_DDSR) \<noteq> 0 \<and> bIER s AND IER_MSR_DELTA \<noteq> 0) \<longrightarrow>
            bIIR (updateIRR s) AND IIR_NO_INT = IIR_NO_INT \<and>
            trace (updateIRR s) = trace s @ [ClearIRR (nIRQ s)])"
proof -
  have rbr: "IIR_INT_RBR AND (IIR_NO_INT OR IIR_INT_BITS) = IIR_INT_RBR" "IIR_INT_RBR \<ge> 0"
    and msr: "IIR_INT_MSR AND (IIR_NO_INT OR IIR_INT_BITS) = IIR_INT_MSR" "IIR_INT_MSR \<ge> 0"
    by (simp_all add: reg_defs)
  show ?thesis
    using assms
    by (simp add: updateIRR_def Let_def field_set or_and_self rbr msr
        del: bit.de_Morgan_disj)
qed

theorem updateIRR_arbitration_witness:
  "chipset rx_pending \<and> nIRQ rx_pending \<noteq> 0 \<and>
   bLSR rx_pending AND LSR_DR \<noteq> 0 \<and> bIER rx_pending AND IER_RBR_AVAIL \<noteq> 0 \<and>
   bIIR (updateIRR rx_pending) AND (IIR_NO_INT OR IIR_INT_BITS) = IIR_INT_RBR \<and>
   trace (updateIRR rx_pending) = [SetIRR 4 100] \<and>
   bLSR cts_pending AND LSR_DR = 0 \<and>
   bMSR cts_pending AND (MSR_DCTS OR MSR_DDSR) \<noteq> 0 \<and>
   bIER cts_pending AND IER_MSR_DELTA \<noteq> 0 \<and>
   bIIR (updateIRR cts_pending) AND (IIR_NO_INT OR IIR_INT_BITS) = IIR_INT_MSR \<and>
   trace (updateIRR cts_pending) = [SetIRR 4 100] \<and>
   bLSR com1_ready AND LSR_DR = 0 \<and> bMSR com1_ready AND (MSR_DCTS OR MSR_DDSR) = 0 \<and>
   bIIR (updateIRR com1_ready) AND IIR_NO_INT = IIR_NO_INT \<and>
   trace (updateIRR com1_ready) = [ClearIRR 4]"
proof -
  have wired: "chipset rx_pending" "nIRQ rx_pending \<noteq> 0" "chipset cts_pending"
    "nIRQ cts_pending \<noteq> 0" "chipset com1_ready" "nIRQ com1_ready \<noteq> 0"
    by (simp_all add: rx_pending_def cts_pending_def com1_ready_def com1_def
        set_registers_def)
  have regs: "bLSR rx_pending = 0x61" "bIER rx_pending = 1" "bLSR cts_pending = 0x60"
    "bMSR cts_pending = 0x31" "bIER cts_pending = 8" "bLSR com1_ready = 0x60"
    "bMSR com1_ready = 0x30" "bIER com1_ready = 0"
    "trace rx_pending = []" "trace cts_pending = []" "trace com1_ready = []"
    "nIRQ rx_pending = 4" "nIRQ cts_pending = 4" "nIRQ com1_ready = 4"
    by (simp_all add: rx_pending_def cts_pending_def com1_ready_def com1_def
        set_registers_def reg_defs)
  show ?thesis
    using updateIRR_arbitration [OF wired(1,2)] updateIRR_arbitration [OF wired(3,4)]
      updateIRR_arbitration [OF wired(5,6)]
    by (simp add: wired regs reg_defs)
qed

subsection \<open>What the operations leave alone\<close>

lemma transmitByte_frame [simp]:
  "bLSR (snd (transmitByte lib a b s)) = bLSR s"
  "bMSR (snd (transmitByte lib a b s)) = bMSR s"
  "bMSRInit (snd (transmitByte lib a b s)) = bMSRInit s"
  "wDL (snd (transmitByte lib a b s)) = wDL s"
  "bTHR (snd (transmitByte lib a b s)) = bTHR s"
  by (simp_all add: transmitByte_def Let_def split: option.splits prod.splits)

lemma transmitByte_indep:
  "transmitByte lib a b (s\<lparr>bTHR := x, bLSR := y\<rparr>) =
     (fst (transmitByte lib a b s), (snd (transmitByte lib a b s))\<lparr>bTHR := x, bLSR := y\<rparr>)"
  by (simp add: transmitByte_def Let_def split: option.splits prod.splits)

lemma advanceRBR_msr [simp]:
  "bMSR (advanceRBR s) = bMSR s" "bMSRInit (advanceRBR s) = bMSRInit s"
  by (simp_all add: advanceRBR_def split: list.splits)

lemma receiveData_msr [simp]:
  "bMSR (snd (receiveData d s)) = bMSR s" "bMSRInit (snd (receiveData d s)) = bMSRInit s"
  by (cases d; simp)+

lemma outTHR_msr [simp]:
  "bMSR (outTHR lib a b s) = bMSR s" "bMSRInit (outTHR lib a b s) = bMSRInit s"
  by (simp_all add: outTHR_def Let_def case_prod_beta transmitByte_indep)

lemma outMCR_msr [simp]:
  "bMSR (outMCR rs b s) = bMSR s" "bMSRInit (outMCR rs b s) = bMSRInit s"
  by (simp_all add: outMCR_def Let_def split: option.splits)

lemma initConnection_msr [simp]:
  "bMSR (initConnection lib h f s) = bMSR s"
  "bMSRInit (initConnection lib h f s) = bMSRInit s"
  by (simp_all add: initConnection_def Let_def split: option.splits list.splits)

lemma portOutput_msr:
  "portOutput lib rs a off b s = Some s' \<Longrightarrow> bMSR s' = bMSR s \<and> bMSRInit s' = bMSRInit s"
  by (auto simp: portOutput_def outIER_def outLCR_def split: if_splits)

lemma portInput_msr:
  "portInput off s = Some (b, s') \<Longrightarrow> off \<noteq> 6 \<Longrightarrow> bMSR s' = bMSR s"
  by (auto simp: portInput_def inRBR_def inIER_def inIIR_def inLCR_def inMCR_def inLSR_def
      Let_def split: if_splits)

lemma portInput_msrinit:
  "portInput off s = Some (b, s') \<Longrightarrow> bMSRInit s' = bMSRInit s"
  by (auto simp: portInput_def inRBR_def inIER_def inIIR_def inLCR_def inMCR_def inLSR_def
      inMSR_def Let_def split: if_splits)

lemma receiveStatus_msrinit [simp]: "bMSRInit (receiveStatus rs pins s) = bMSRInit s"
  by (simp add: receiveStatus_def Let_def)

lemma receiveStatus_msr:
  "bMSR (receiveStatus rs pins s) =
     (let m0 = bMSR s AND NOT (MSR_CTS OR MSR_DSR);
          m1 = (if pins AND CTS_MASK rs \<noteq> 0 then m0 OR (MSR_CTS OR MSR_DCTS) else m0)
      in (if pins AND DSR_MASK rs \<noteq> 0 then m1 OR (MSR_DSR OR MSR_DDSR) else m1))"
  by (simp add: receiveStatus_def Let_def)

lemma reset_msr:
  "reset d = Inr r \<Longrightarrow> typed_of r = Some s \<Longrightarrow> bMSR s = bMSRInit d \<and> bMSRInit s = bMSRInit d"
  by (auto simp: reset_loads_defaults typed_of_def set_registers_def)

subsection \<open>The receive holding register\<close>

lemma advanceRBR_DR_set: "bLSR s AND LSR_DR \<noteq> 0 \<Longrightarrow> advanceRBR s = updateIRR s"
  by (simp add: advanceRBR_def split: list.splits)

lemma advanceRBR_empty: "abReceive s = [] \<Longrightarrow> advanceRBR s = updateIRR s"
  by (simp add: advanceRBR_def)

lemma advanceRBR_stage:
  "bLSR s AND LSR_DR = 0 \<Longrightarrow> abReceive s = x # rest \<Longrightarrow>
   advanceRBR s = updateIRR (s\<lparr>bRBR := x, abReceive := rest, bLSR := bLSR s OR LSR_DR\<rparr>)"
  by (simp add: advanceRBR_def)

lemma receiveData_DR_set:
  assumes "bLSR s AND LSR_DR \<noteq> 0"
  shows "bRBR (snd (receiveData d s)) = bRBR s"
    and "abReceive (snd (receiveData d s)) = abReceive s @ bytes_of d"
    and "bLSR (snd (receiveData d s)) = bLSR s"
    and "bLCR (snd (receiveData d s)) = bLCR s"
  using assms by (cases d; simp add: advanceRBR_DR_set)+

lemma receive_all_DR_set:
  "bLSR s AND LSR_DR \<noteq> 0 \<Longrightarrow>
   bRBR (receive_all ds s) = bRBR s \<and>
   abReceive (receive_all ds s) = abReceive s @ concat (map bytes_of ds) \<and>
   bLSR (receive_all ds s) = bLSR s \<and> bLCR (receive_all ds s) = bLCR s"
proof (induction ds arbitrary: s)
  case Nil
  then show ?case by simp
next
  case (Cons d ds)
  from Cons.prems have "bLSR (snd (receiveData d s)) AND LSR_DR \<noteq> 0"
    by (simp add: receiveData_DR_set)
  from Cons.IH[OF this] Cons.prems show ?case
    by (simp add: receiveData_DR_set)
qed

lemma inRBR_value:
  "fst (inRBR s) = (if bLCR s AND LCR_DLAB \<noteq> 0 then wDL s AND 0xff else bRBR s)"
  by (simp add: inRBR_def Let_def)

lemma inRBR_empty:
  "abReceive s = [] \<Longrightarrow>
   abReceive (snd (inRBR s)) = [] \<and> bRBR (snd (inRBR s)) = bRBR s \<and>
   bLSR (snd (inRBR s)) AND LSR_DR = 0"
  by (simp add: inRBR_def Let_def advanceRBR_empty and_not_self)

lemma inRBR_stage:
  "abReceive s = x # rest \<Longrightarrow>
   abReceive (snd (inRBR s)) = rest \<and> bRBR (snd (inRBR s)) = x \<and>
   bLSR (snd (inRBR s)) AND LSR_DR = LSR_DR"
  by (simp add: inRBR_def Let_def advanceRBR_stage and_not_self or_and_self)

text \<open>
  C2: the staging step \<^verbatim>\<open>advanceRBR\<close> moves the head of the receive queue into \<open>rbr\<close> and
  sets \<open>lsr.DR\<close> only when \<open>lsr.DR\<close> is clear; with \<open>lsr.DR\<close> set it leaves \<open>rbr\<close>, the queue
  and \<open>lsr\<close> as they are. So, while \<open>lsr.DR\<close> is set, any sequence of \<^verbatim>\<open>receiveData\<close> calls
  leaves \<open>rbr\<close> unchanged and queues all their bytes behind the backlog; a read of \<open>rbr\<close>
  then returns the staged byte and, when the backlog is not empty, stages exactly its head
  (the backlog is one shorter and \<open>lsr.DR\<close> is set again); with nothing queued, the read
  leaves \<open>lsr.DR\<close> clear.
\<close>

theorem holding_register_one_deep:
  "(bLSR s AND LSR_DR \<noteq> 0 \<longrightarrow>
      bRBR (advanceRBR s) = bRBR s \<and> abReceive (advanceRBR s) = abReceive s \<and>
      bLSR (advanceRBR s) = bLSR s) \<and>
   (bLSR s AND LSR_DR = 0 \<longrightarrow>
      (case abReceive s of
         [] \<Rightarrow> bRBR (advanceRBR s) = bRBR s \<and> abReceive (advanceRBR s) = [] \<and>
               bLSR (advanceRBR s) = bLSR s
       | x # rest \<Rightarrow> bRBR (advanceRBR s) = x \<and> abReceive (advanceRBR s) = rest \<and>
               bLSR (advanceRBR s) AND LSR_DR = LSR_DR)) \<and>
   (bLSR s AND LSR_DR \<noteq> 0 \<longrightarrow>
      bRBR (receive_all ds s) = bRBR s \<and>
      abReceive (receive_all ds s) = abReceive s @ concat (map bytes_of ds) \<and>
      bLSR (receive_all ds s) AND LSR_DR \<noteq> 0 \<and>
      (bLCR s AND LCR_DLAB = 0 \<longrightarrow> fst (inRBR (receive_all ds s)) = bRBR s) \<and>
      (case abReceive s @ concat (map bytes_of ds) of
         [] \<Rightarrow> abReceive (snd (inRBR (receive_all ds s))) = [] \<and>
               bRBR (snd (inRBR (receive_all ds s))) = bRBR s \<and>
               bLSR (snd (inRBR (receive_all ds s))) AND LSR_DR = 0
       | x # rest \<Rightarrow>
               bRBR (snd (inRBR (receive_all ds s))) = x \<and>
               abReceive (snd (inRBR (receive_all ds s))) = rest \<and>
               length (abReceive (snd (inRBR (receive_all ds s)))) + 1 =
                 length (abReceive (receive_all ds s)) \<and>
               bLSR (snd (inRBR (receive_all ds s))) AND LSR_DR = LSR_DR))"
proof (intro conjI impI)
  assume dr: "bLSR s AND LSR_DR \<noteq> 0"
  show "bRBR (advanceRBR s) = bRBR s" "abReceive (advanceRBR s) = abReceive s"
    "bLSR (advanceRBR s) = bLSR s"
    using dr by (simp_all add: advanceRBR_DR_set)
next
  assume "bLSR s AND LSR_DR = 0"
  then show "case abReceive s of
         [] \<Rightarrow> bRBR (advanceRBR s) = bRBR s \<and> abReceive (advanceRBR s) = [] \<and>
               bLSR (advanceRBR s) = bLSR s
       | x # rest \<Rightarrow> bRBR (advanceRBR s) = x \<and> abReceive (advanceRBR s) = rest \<and>
               bLSR (advanceRBR s) AND LSR_DR = LSR_DR"
    by (simp add: advanceRBR_empty advanceRBR_stage or_and_self split: list.splits)
next
  assume dr: "bLSR s AND LSR_DR \<noteq> 0"
  note all = receive_all_DR_set[OF dr, of ds]
  show "bRBR (receive_all ds s) = bRBR s"
    "abReceive (receive_all ds s) = abReceive s @ concat (map bytes_of ds)"
    "bLSR (receive_all ds s) AND LSR_DR \<noteq> 0"
    using all dr by simp_all
  { assume "bLCR s AND LCR_DLAB = 0"
    then show "fst (inRBR (receive_all ds s)) = bRBR s"
      using all by (simp add: inRBR_value)
  }
  show "case abReceive s @ concat (map bytes_of ds) of
         [] \<Rightarrow> abReceive (snd (inRBR (receive_all ds s))) = [] \<and>
               bRBR (snd (inRBR (receive_all ds s))) = bRBR s \<and>
               bLSR (snd (inRBR (receive_all ds s))) AND LSR_DR = 0
       | x # rest \<Rightarrow>
               bRBR (snd (inRBR (receive_all ds s))) = x \<and>
               abReceive (snd (inRBR (receive_all ds s))) = rest \<and>
               length (abReceive (snd (inRBR (receive_all ds s)))) + 1 =
                 length (abReceive (receive_all ds s)) \<and>
               bLSR (snd (inRBR (receive_all ds s))) AND LSR_DR = LSR_DR"
  proof (cases "abReceive s @ concat (map bytes_of ds)")
    case Nil
    with all have e: "abReceive (receive_all ds s) = []" by simp
    show ?thesis unfolding Nil using inRBR_empty[OF e] all by simp
  next
    case (Cons x rest)
    with all have q: "abReceive (receive_all ds s) = x # rest" by simp
    show ?thesis unfolding Cons using inRBR_stage[OF q] q by simp
  qed
qed

theorem holding_register_one_deep_witness:
  "bLSR rx_pending AND LSR_DR \<noteq> 0 \<and> bLCR rx_pending AND LCR_DLAB = 0 \<and>
   bRBR (receive_all [RxNumber 0x10, RxArray [0x20, 0x30]] rx_pending) = 0x41 \<and>
   abReceive (receive_all [RxNumber 0x10, RxArray [0x20, 0x30]] rx_pending) = [0x10, 0x20, 0x30] \<and>
   fst (inRBR (receive_all [RxNumber 0x10, RxArray [0x20, 0x30]] rx_pending)) = 0x41 \<and>
   bRBR (snd (inRBR (receive_all [RxNumber 0x10, RxArray [0x20, 0x30]] rx_pending))) = 0x10 \<and>
   abReceive (snd (inRBR (receive_all [RxNumber 0x10, RxArray [0x20, 0x30]] rx_pending)))
     = [0x20, 0x30] \<and>
   bLSR com1_ready AND LSR_DR = 0 \<and> bRBR (advanceRBR com1_ready) = 0"
proof -
  have regs: "bLSR rx_pending = 0x61" "bLCR rx_pending = 0" "bRBR rx_pending = 0x41"
    "abReceive rx_pending = []" "bLSR com1_ready = 0x60" "abReceive com1_ready = []"
    "bRBR com1_ready = 0"
    by (simp_all add: rx_pending_def com1_ready_def com1_def set_registers_def)
  show ?thesis
    using holding_register_one_deep [of rx_pending "[RxNumber 0x10, RxArray [0x20, 0x30]]"]
      holding_register_one_deep [of com1_ready "[]"]
    by (simp add: regs reg_defs)
qed

subsection \<open>Writing the transmit holding register\<close>

text \<open>
  C4: a write of a byte to offset 0. With DLAB set, only \<open>wDL\<close> changes: its low byte
  becomes the byte written and the rest of it stays. With DLAB clear, \<open>thr\<close> holds the
  byte, the state is otherwise the one \<^verbatim>\<open>transmitByte\<close> leaves when called with the byte
  (but for \<open>lsr\<close>), and of \<open>lsr\<close> only THRE and TSRE change: both are set when
  \<^verbatim>\<open>transmitByte\<close> reports delivery and both are clear when it does not.
\<close>

theorem outTHR_write:
  "(bLCR s AND LCR_DLAB \<noteq> 0 \<longrightarrow>
      outTHR lib acc b s = s\<lparr>wDL := wDL (outTHR lib acc b s)\<rparr> \<and>
      (0 \<le> b \<and> b < 256 \<longrightarrow>
         wDL (outTHR lib acc b s) AND 0xff = b \<and>
         drop_bit 8 (wDL (outTHR lib acc b s)) = drop_bit 8 (wDL s))) \<and>
   (bLCR s AND LCR_DLAB = 0 \<longrightarrow>
      bTHR (outTHR lib acc b s) = b \<and>
      outTHR lib acc b s =
        (snd (transmitByte lib acc b s))\<lparr>bTHR := b, bLSR := bLSR (outTHR lib acc b s)\<rparr> \<and>
      bLSR (outTHR lib acc b s) AND (LSR_THRE OR LSR_TSRE) =
        (if fst (transmitByte lib acc b s) then LSR_THRE OR LSR_TSRE else 0) \<and>
      bLSR (outTHR lib acc b s) AND NOT (LSR_THRE OR LSR_TSRE) =
        bLSR s AND NOT (LSR_THRE OR LSR_TSRE))"
proof (intro conjI impI)
  assume d: "bLCR s AND LCR_DLAB \<noteq> 0"
  show "outTHR lib acc b s = s\<lparr>wDL := wDL (outTHR lib acc b s)\<rparr>"
    using d by (simp add: outTHR_def)
  { assume "0 \<le> b \<and> b < 256"
    then show "wDL (outTHR lib acc b s) AND 0xff = b"
      using d byte_low[of b "wDL s"] by (simp add: outTHR_def)
  }
  { assume "0 \<le> b \<and> b < 256"
    then show "drop_bit 8 (wDL (outTHR lib acc b s)) = drop_bit 8 (wDL s)"
      using d byte_high[of b "wDL s"] by (simp add: outTHR_def)
  }
next
  assume d: "bLCR s AND LCR_DLAB = 0"
  have eq: "outTHR lib acc b s =
      (snd (transmitByte lib acc b s))\<lparr>bTHR := b,
         bLSR := (if fst (transmitByte lib acc b s)
                  then (bLSR s AND NOT (LSR_THRE OR LSR_TSRE)) OR (LSR_THRE OR LSR_TSRE)
                  else bLSR s AND NOT (LSR_THRE OR LSR_TSRE))\<rparr>"
    using d by (simp add: outTHR_def Let_def transmitByte_indep del: bit.de_Morgan_disj)
  show "bTHR (outTHR lib acc b s) = b" by (subst eq) simp
  show "outTHR lib acc b s =
        (snd (transmitByte lib acc b s))\<lparr>bTHR := b, bLSR := bLSR (outTHR lib acc b s)\<rparr>"
    by (subst (2) eq, subst eq) simp
  show "bLSR (outTHR lib acc b s) AND (LSR_THRE OR LSR_TSRE) =
        (if fst (transmitByte lib acc b s) then LSR_THRE OR LSR_TSRE else 0)"
    by (subst eq) (simp add: or_and_self and_not_self del: bit.de_Morgan_disj)
  show "bLSR (outTHR lib acc b s) AND NOT (LSR_THRE OR LSR_TSRE) =
        bLSR s AND NOT (LSR_THRE OR LSR_TSRE)"
    by (subst eq) (simp add: or_and_not_self and_not_idem del: bit.de_Morgan_disj)
qed

theorem outTHR_write_witness:
  "bLCR com1_dlab AND LCR_DLAB \<noteq> 0 \<and> (0::int) \<le> 0x60 \<and> (0x60::int) < 256 \<and>
   wDL (outTHR ascii_lib True 0x60 com1_dlab) = 0x160 \<and>
   bTHR (outTHR ascii_lib True 0x60 com1_dlab) = 0 \<and>
   bLCR com1_linked AND LCR_DLAB = 0 \<and>
   fst (transmitByte ascii_lib True 0x41 com1_linked) \<and>
   bTHR (outTHR ascii_lib True 0x41 com1_linked) = 0x41 \<and>
   bLSR (outTHR ascii_lib True 0x41 com1_linked) AND (LSR_THRE OR LSR_TSRE)
     = (LSR_THRE OR LSR_TSRE) \<and>
   \<not> fst (transmitByte ascii_lib False 0x41 com1_linked) \<and>
   bLSR (outTHR ascii_lib False 0x41 com1_linked) AND (LSR_THRE OR LSR_TSRE) = 0"
proof -
  have regs: "bLCR com1_dlab = 0x80" "wDL com1_dlab = 0x180" "bTHR com1_dlab = 0"
    "bLCR com1_linked = 0"
    by (simp_all add: com1_dlab_def com1_linked_def com1_ready_def com1_def
        set_registers_def reg_defs)
  have sink: "fst (transmitByte ascii_lib True 0x41 com1_linked)"
    "\<not> fst (transmitByte ascii_lib False 0x41 com1_linked)"
    by (simp_all add: transmitByte_def com1_linked_def com1_ready_def com1_def
        set_registers_def)
  show ?thesis
    using outTHR_write [of com1_dlab ascii_lib True "0x60"]
      outTHR_write [of com1_linked ascii_lib True "0x41"]
      outTHR_write [of com1_linked ascii_lib False "0x41"]
    by (simp add: regs sink reg_defs outTHR_def)
qed

subsection \<open>Reading the modem status register\<close>

lemma receiveStatus_keeps_deltas:
  "bMSR (receiveStatus rs pins s) AND (bMSR s AND (MSR_DCTS OR MSR_DDSR OR MSR_TERI OR MSR_DRLSD))
     = bMSR s AND (MSR_DCTS OR MSR_DDSR OR MSR_TERI OR MSR_DRLSD)"
proof -
  have a: "(MSR_DCTS OR MSR_DDSR OR MSR_TERI OR MSR_DRLSD) AND (MSR_CTS OR MSR_DSR) = 0"
    by (simp add: reg_defs)
  note b = and_not_keeps[OF a, of "bMSR s"]
  show ?thesis
    by (simp add: receiveStatus_msr Let_def or_keeps b del: bit.de_Morgan_disj)
qed

lemma step_keeps_deltas:
  assumes "op \<noteq> PortIn 6"
  shows "bMSR (step lib rs op s) AND (bMSR s AND (MSR_DCTS OR MSR_DDSR OR MSR_TERI OR MSR_DRLSD))
     = bMSR s AND (MSR_DCTS OR MSR_DDSR OR MSR_TERI OR MSR_DRLSD)"
proof (cases op)
  case (PortIn off)
  with assms have off: "off \<noteq> 6" by simp
  show ?thesis
  proof (cases "portInput off s")
    case None
    with PortIn show ?thesis by simp
  next
    case (Some r)
    obtain b s' where r: "r = (b, s')" by (cases r)
    from portInput_msr[OF Some[unfolded r] off] PortIn Some r show ?thesis by simp
  qed
next
  case (PortOut off b a)
  show ?thesis
  proof (cases "portOutput lib rs a off b s")
    case None
    with PortOut show ?thesis by simp
  next
    case (Some s')
    from portOutput_msr[OF Some] PortOut Some show ?thesis by simp
  qed
next
  case (ReceiveData d)
  then show ?thesis by simp
next
  case (ReceiveStatus pins)
  then show ?thesis by (simp add: receiveStatus_keeps_deltas)
next
  case (InitConnection h f)
  then show ?thesis by simp
next
  case (AttachMouse i m fn)
  then show ?thesis by (simp add: attachMouse_def)
next
  case (SetBinding b v)
  then show ?thesis by (simp add: setBinding_def)
next
  case (InitBus found)
  then show ?thesis by (simp add: initBus_def)
qed

text \<open>
  C5, as stated, fails: the read of \<open>msr\<close> clears delta-CTS and delta-DSR only. A
  trailing-edge-ring bit that is set is still set after the read.
\<close>

theorem inMSR_teri_counterexample:
  "bMSR teri_pending AND MSR_TERI \<noteq> 0 \<and>
   fst (inMSR teri_pending) = bMSR teri_pending \<and>
   bMSR (snd (inMSR teri_pending)) AND MSR_TERI \<noteq> 0"
  by (simp add: inMSR_def teri_pending_def com1_ready_def com1_def set_registers_def reg_defs)

text \<open>
  C5 (amended): reading offset 6 returns the current \<open>msr\<close> and then clears its delta-CTS
  and delta-DSR bits; no other bit of \<open>msr\<close> is modified by the read (trailing-edge-ring and
  delta-RLSD stay as they are). No other operation on a working device (port read, port
  write, \<^verbatim>\<open>receiveData\<close>, \<^verbatim>\<open>receiveStatus\<close>, connection set-up) clears a delta bit that is
  set; reset and restore replace the whole register.
\<close>

theorem inMSR_clears_cts_dsr_deltas:
  "fst (inMSR s) = bMSR s \<and>
   bMSR (snd (inMSR s)) AND (MSR_DCTS OR MSR_DDSR) = 0 \<and>
   bMSR (snd (inMSR s)) AND NOT (MSR_DCTS OR MSR_DDSR) = bMSR s AND NOT (MSR_DCTS OR MSR_DDSR) \<and>
   (op \<noteq> PortIn 6 \<longrightarrow>
      bMSR (step lib rs op s) AND (bMSR s AND (MSR_DCTS OR MSR_DDSR OR MSR_TERI OR MSR_DRLSD))
        = bMSR s AND (MSR_DCTS OR MSR_DDSR OR MSR_TERI OR MSR_DRLSD))"
proof (intro conjI impI)
  show "fst (inMSR s) = bMSR s" by (simp add: inMSR_def)
  show "bMSR (snd (inMSR s)) AND (MSR_DCTS OR MSR_DDSR) = 0"
    by (simp add: inMSR_def and_not_self del: bit.de_Morgan_disj)
  show "bMSR (snd (inMSR s)) AND NOT (MSR_DCTS OR MSR_DDSR)
      = bMSR s AND NOT (MSR_DCTS OR MSR_DDSR)"
    by (simp add: inMSR_def and_not_idem del: bit.de_Morgan_disj)
next
  assume "op \<noteq> PortIn 6"
  then show "bMSR (step lib rs op s)
        AND (bMSR s AND (MSR_DCTS OR MSR_DDSR OR MSR_TERI OR MSR_DRLSD))
      = bMSR s AND (MSR_DCTS OR MSR_DDSR OR MSR_TERI OR MSR_DRLSD)"
    by (rule step_keeps_deltas)
qed

theorem inMSR_clears_cts_dsr_deltas_witness:
  "ReceiveStatus 0 \<noteq> PortIn 6 \<and>
   fst (inMSR cts_pending) = 0x31 \<and> bMSR (snd (inMSR cts_pending)) = 0x30 \<and>
   bMSR cts_pending AND (MSR_DCTS OR MSR_DDSR OR MSR_TERI OR MSR_DRLSD) = 1 \<and>
   bMSR (step ascii_lib rs232_masks (ReceiveStatus 0) cts_pending) AND 1 = 1"
proof -
  have regs: "bMSR cts_pending = 0x31"
    by (simp add: cts_pending_def com1_ready_def com1_def set_registers_def)
  have rd: "bMSR (snd (inMSR cts_pending)) = 0x30"
    by (simp add: inMSR_def regs reg_defs)
  show ?thesis
    using inMSR_clears_cts_dsr_deltas
      [of cts_pending "ReceiveStatus 0" ascii_lib rs232_masks]
    by (simp add: regs rd reg_defs)
qed

subsection \<open>Restore\<close>


lemma restore_absent: "restore [] s = initState JUndefined s"
  by (simp add: restore_def js_index_def)

lemma restore_null: "restore (JNull # rest) s = Inl TypeError"
  by (simp add: restore_def initState_def js_index_def)




subsection \<open>Connection resolution\<close>

lemma initConnection_com1: "initConnection ascii_lib link_host True com1_ready = com1_linked"
  by (simp add: initConnection_def link_host_def com1_ready_def com1_def set_registers_def
      com1_linked_def peer_com2_def ascii_lib_def trim_spaces_def)

text \<open>
  C9: on a device whose connection is established, \<^verbatim>\<open>initConnection\<close> changes nothing: the
  peer reference, \<open>sendData\<close>, \<open>updateStatus\<close>, the null-modem flag and everything else
  are as before, and no call goes out.
\<close>

theorem initConnection_idempotent:
  "connection s \<noteq> None \<Longrightarrow> initConnection lib h f s = s"
  by (auto simp: initConnection_def)

theorem initConnection_idempotent_witness:
  "connection com1_linked \<noteq> None \<and>
   initConnection ascii_lib link_host False com1_linked = com1_linked \<and>
   fNullModem (initConnection ascii_lib link_host False com1_linked)"
proof -
  have c: "connection com1_linked \<noteq> None" "fNullModem com1_linked"
    by (simp_all add: com1_linked_def com1_ready_def com1_def set_registers_def)
  from initConnection_idempotent [OF c(1), of ascii_lib link_host False] c
  show ?thesis by simp
qed

subsection \<open>The ring and carrier delta bits\<close>

lemma receiveStatus_ring:
  "bMSR (receiveStatus rs pins s) AND (MSR_TERI OR MSR_DRLSD)
     = bMSR s AND (MSR_TERI OR MSR_DRLSD)"
proof -
  have a: "(MSR_CTS OR MSR_DSR) AND (MSR_TERI OR MSR_DRLSD) = 0"
    "(MSR_CTS OR MSR_DCTS) AND (MSR_TERI OR MSR_DRLSD) = 0"
    "(MSR_DSR OR MSR_DDSR) AND (MSR_TERI OR MSR_DRLSD) = 0"
    by (simp_all add: reg_defs)
  show ?thesis
    by (simp add: receiveStatus_msr Let_def or_other[OF a(2)] or_other[OF a(3)]
        and_not_other[OF a(1)] del: bit.de_Morgan_disj)
qed

lemma step_ring_inv: "ring_inv s \<Longrightarrow> ring_inv (step lib rs op s)"
proof (cases op)
  case (PortIn off)
  assume i: "ring_inv s"
  show ?thesis
  proof (cases "portInput off s")
    case None
    with PortIn i show ?thesis by simp
  next
    case (Some r)
    obtain b s' where r: "r = (b, s')" by (cases r)
    show ?thesis
    proof (cases "off = 6")
      case True
      have a: "(MSR_DCTS OR MSR_DDSR) AND (MSR_TERI OR MSR_DRLSD) = 0"
        by (simp add: reg_defs)
      from True i PortIn show ?thesis
        by (simp add: portInput_def inMSR_def ring_inv_def and_not_other[OF a]
            del: bit.de_Morgan_disj)
    next
      case False
      from portInput_msr[OF Some[unfolded r] False] portInput_msrinit[OF Some[unfolded r]] i
      show ?thesis using PortIn Some r by (simp add: ring_inv_def)
    qed
  qed
next
  case (PortOut off b a)
  assume i: "ring_inv s"
  show ?thesis
  proof (cases "portOutput lib rs a off b s")
    case None
    with PortOut i show ?thesis by simp
  next
    case (Some s')
    from portOutput_msr[OF Some] i PortOut Some show ?thesis by (simp add: ring_inv_def)
  qed
next
  case (ReceiveData d)
  assume "ring_inv s"
  with ReceiveData show ?thesis by (simp add: ring_inv_def)
next
  case (ReceiveStatus pins)
  assume "ring_inv s"
  with ReceiveStatus show ?thesis by (simp add: ring_inv_def receiveStatus_ring)
next
  case (InitConnection h f)
  assume "ring_inv s"
  with InitConnection show ?thesis by (simp add: ring_inv_def)
next
  case (AttachMouse i m fn)
  assume "ring_inv s"
  with AttachMouse show ?thesis by (simp add: ring_inv_def attachMouse_def)
next
  case (SetBinding b v)
  assume "ring_inv s"
  with SetBinding show ?thesis by (simp add: ring_inv_def setBinding_def)
next
  case (InitBus found)
  assume "ring_inv s"
  with InitBus show ?thesis by (simp add: ring_inv_def initBus_def)
qed

lemma reachable_ring_inv: "reachable lib rs s \<Longrightarrow> ring_inv s"
proof (induction rule: reachable.induct)
  case (reach_reset d r s)
  from reset_msr[OF reach_reset(2,3)] reach_reset(1) show ?case
    by (simp add: ring_inv_def constructed_def reg_defs)
next
  case (reach_step s op)
  then show ?case by (simp add: step_ring_inv)
next
  case (reach_reset_again s r s')
  from reset_msr[OF reach_reset_again(2,3)] reach_reset_again(4) show ?case
    by (simp add: ring_inv_def reg_defs)
qed

text \<open>
  C10: in every state reachable from a hardware reset of a constructed device by port
  reads, port writes, \<^verbatim>\<open>receiveData\<close>, \<^verbatim>\<open>receiveStatus\<close>, connection set-up, binding a
  control, attaching the bus and further resets (no restore), the trailing-edge-ring bit
  and the delta-RLSD bit of \<open>msr\<close> are clear.
\<close>

theorem ring_delta_bits_never_set:
  "reachable lib rs s \<Longrightarrow> bMSR s AND MSR_TERI = 0 \<and> bMSR s AND MSR_DRLSD = 0"
proof -
  assume "reachable lib rs s"
  then have "bMSR s AND (MSR_TERI OR MSR_DRLSD) = 0"
    using reachable_ring_inv by (simp add: ring_inv_def)
  then show ?thesis
    by (auto simp add: bit_eq_iff bit_simps)
qed

theorem ring_delta_bits_never_set_witness:
  "reachable ascii_lib rs232_masks (step ascii_lib rs232_masks (ReceiveStatus 0x60) com1_ready) \<and>
   bMSR (step ascii_lib rs232_masks (ReceiveStatus 0x60) com1_ready) = 0x33 \<and>
   bMSR (step ascii_lib rs232_masks (ReceiveStatus 0x60) com1_ready) AND MSR_TERI = 0 \<and>
   bMSR (step ascii_lib rs232_masks (ReceiveStatus 0x60) com1_ready) AND MSR_DRLSD = 0"
proof -
  have c: "constructed com1" by (simp add: constructed_def com1_def)
  have r: "reachable ascii_lib rs232_masks
      (step ascii_lib rs232_masks (ReceiveStatus 0x60) com1_ready)"
    by (rule reach_step, rule reach_reset [OF c reset_com1 typed_of_com1_ready])
  have v: "bMSR (step ascii_lib rs232_masks (ReceiveStatus 0x60) com1_ready) = 0x33"
    by (simp add: receiveStatus_msr rs232_masks_def com1_ready_def com1_def
        set_registers_def reg_defs)
  from ring_delta_bits_never_set [OF r] r v show ?thesis by simp
qed

subsection \<open>Modem control writes and the peer\<close>

lemma and_1_iff: "(b AND (1::int) \<noteq> 0) = bit b 0"
  using and_exp_eq_0_iff_not_bit[of b 0] by simp

lemma and_2_iff: "(b AND (2::int) \<noteq> 0) = bit b 1"
  using and_exp_eq_0_iff_not_bit[of b 1] by simp

lemma and_3_iff: "(x AND (3::int) \<noteq> 0) = (bit x 0 \<or> bit x 1)"
proof -
  have "(3::int) = 1 OR 2" by simp
  then have "x AND 3 = (x AND 1) OR (x AND 2)"
    by (simp only: bit.conj_disj_distrib)
  then show ?thesis
    using and_1_iff[of x] and_2_iff[of x] by (simp only: or_eq_0_iff) blast
qed

lemma changed_iff: "((b XOR old) AND (MCR_DTR OR MCR_RTS) \<noteq> 0) = dtr_rts_changed old b"
  using and_3_iff[of "b XOR old"] by (auto simp: reg_defs dtr_rts_changed_def bit_xor_iff)

lemma mcr_pins_spec:
  "mcr_pins rs nm b = (if nm then crossover_pins rs b else straight_pins rs b)"
  by (simp add: mcr_pins_def crossover_pins_def straight_pins_def reg_defs and_1_iff and_2_iff)

lemma outMCR_notifies:
  assumes "updateStatus s = Some fn"
  shows "outMCR rs b s =
     s\<lparr>bMCR := b,
       trace := trace s @
         (if dtr_rts_changed (bMCR s) b
          then [CallUpdateStatus fn (connection s)
                 (if fNullModem s then crossover_pins rs b else straight_pins rs b)]
          else [])\<rparr>"
  using assms
  by (simp add: outMCR_def Let_def changed_iff mcr_pins_spec del: bit.de_Morgan_disj)

text \<open>
  C3: on a device that has the peer's \<open>updateStatus\<close> capability, a sequence of writes to
  \<open>mcr\<close> makes exactly these calls of it, in order: one for each write that changes DTR
  or RTS, with the crossover mapping of the value written in null-modem mode (RTS as the
  clear-to-send mask, DTR as the data-set-ready and carrier-detect masks) and the
  straight-through mapping otherwise (RTS as the RTS mask, DTR as the DTR mask); a
  write that changes neither makes no call.
\<close>

theorem mcr_writes_notify_peer:
  assumes "updateStatus s = Some fn"
  shows "trace (mcr_writes rs bs s) =
           trace s @ map (CallUpdateStatus fn (connection s))
                         (expected_status rs (fNullModem s) (bMCR s) bs) \<and>
         bMCR (mcr_writes rs bs s) = last (bMCR s # bs)"
  using assms
proof (induction bs arbitrary: s)
  case Nil
  then show ?case by simp
next
  case (Cons b bs)
  let ?s1 = "outMCR rs b s"
  have s1: "updateStatus ?s1 = Some fn" "connection ?s1 = connection s"
    "fNullModem ?s1 = fNullModem s" "bMCR ?s1 = b"
    using Cons.prems by (simp_all add: outMCR_notifies[OF Cons.prems])
  from Cons.IH[OF s1(1)] show ?case
    by (simp add: s1 outMCR_notifies[OF Cons.prems])
qed

theorem mcr_writes_notify_peer_witness:
  "updateStatus com1_linked = Some (FnRef ''pc2.com2.receiveStatus'') \<and>
   fNullModem com1_linked \<and>
   trace (mcr_writes rs232_masks [0x03, 0x03, 0x01, 0x09] com1_linked) =
     trace com1_linked @
       [CallUpdateStatus (FnRef ''pc2.com2.receiveStatus'') (Some peer_com2) 0x160,
        CallUpdateStatus (FnRef ''pc2.com2.receiveStatus'') (Some peer_com2) 0x140] \<and>
   updateStatus com1_mouse = Some (FnRef ''pc.mouse.receiveStatus'') \<and>
   \<not> fNullModem com1_mouse \<and>
   trace (mcr_writes rs232_masks [0x03, 0x0B] com1_mouse) =
     [CallUpdateStatus (FnRef ''pc.mouse.receiveStatus'') (Some serial_mouse) 0x100010]"
proof -
  have l: "updateStatus com1_linked = Some (FnRef ''pc2.com2.receiveStatus'')"
    "fNullModem com1_linked" "connection com1_linked = Some peer_com2"
    "bMCR com1_linked = 0"
    by (simp_all add: com1_linked_def com1_ready_def com1_def set_registers_def)
  have m: "updateStatus com1_mouse = Some (FnRef ''pc.mouse.receiveStatus'')"
    "\<not> fNullModem com1_mouse" "connection com1_mouse = Some serial_mouse"
    "bMCR com1_mouse = 0" "trace com1_mouse = []"
    by (simp_all add: com1_mouse_def com1_ready_def com1_def set_registers_def)
  have bits: "bit (3::int) 0" "bit (3::int) 1" "bit (1::int) 0" "\<not> bit (1::int) 1"
    "\<not> bit (0::int) 0" "\<not> bit (0::int) 1" "bit (9::int) 0" "\<not> bit (9::int) 1"
    "bit (11::int) 0" "bit (11::int) 1"
    by (simp_all add: bit_iff_odd_drop_bit)
  show ?thesis
    using mcr_writes_notify_peer [OF l(1), of rs232_masks "[0x03, 0x03, 0x01, 0x09]"]
      mcr_writes_notify_peer [OF m(1), of rs232_masks "[0x03, 0x0B]"]
    by (simp add: l m bits dtr_rts_changed_def crossover_pins_def straight_pins_def
        rs232_masks_def)
qed

subsection \<open>Snapshots\<close>

lemma nums_of_list_map: "nums_of_list (map JNum q) = Some q"
  by (induction q) simp_all

lemma typed_of_js_of: "typed_of (js_of s) = Some s"
  by (simp add: typed_of_def js_of_def set_registers_def nums_of_list_map)

text \<open>
  C6: take any device, apply any sequence of port writes, and serialize it. The snapshot
  is the ordered sequence of \<open>rbr\<close>, \<open>thr\<close>, the divisor latch, \<open>ier\<close>, \<open>iir\<close>, \<open>lcr\<close>,
  \<open>mcr\<close>, \<open>lsr\<close>, \<open>msr\<close> and the pending receive queue. Restoring it into a fresh device
  succeeds, gives a working device with these registers and this queue, and serializing
  that device yields the same snapshot; the restore does not throw. (In the source the snapshot and both devices
  share one queue array; nothing is pushed between the three steps, so the values are
  what matters here.)
\<close>

theorem snapshot_roundtrip:
  "saveRegisters (js_of (apply_writes lib rs ws d)) =
     JArr [JNum (bRBR (apply_writes lib rs ws d)), JNum (bTHR (apply_writes lib rs ws d)),
           JNum (wDL (apply_writes lib rs ws d)), JNum (bIER (apply_writes lib rs ws d)),
           JNum (bIIR (apply_writes lib rs ws d)), JNum (bLCR (apply_writes lib rs ws d)),
           JNum (bMCR (apply_writes lib rs ws d)), JNum (bLSR (apply_writes lib rs ws d)),
           JNum (bMSR (apply_writes lib rs ws d)),
           JArr (map JNum (abReceive (apply_writes lib rs ws d)))] \<and>
   (case restore (save (js_of (apply_writes lib rs ws d))) (f :: rawdevice) of
      Inl e \<Rightarrow> False
    | Inr (ok, r) \<Rightarrow>
        ok \<and>
        save r = save (js_of (apply_writes lib rs ws d)) \<and>
        typed_of r =
          Some (set_registers (bRBR (apply_writes lib rs ws d))
            (bTHR (apply_writes lib rs ws d)) (wDL (apply_writes lib rs ws d))
            (bIER (apply_writes lib rs ws d)) (bIIR (apply_writes lib rs ws d))
            (bLCR (apply_writes lib rs ws d)) (bMCR (apply_writes lib rs ws d))
            (bLSR (apply_writes lib rs ws d)) (bMSR (apply_writes lib rs ws d))
            (abReceive (apply_writes lib rs ws d)) f))"
  by (simp add: save_def restore_def initState_def saveRegisters_def js_of_def js_index_def
      set_registers_def Let_def typed_of_def nums_of_list_map)

subsection \<open>The tab on the echo surface\<close>

lemma js_rem_nonneg: "0 \<le> a \<Longrightarrow> 0 < b \<Longrightarrow> js_rem a b = a mod b"
  by (cases "a = 0") (simp_all add: js_rem_def)

lemma transmitByte_echo:
  "controlIOBuffer s = Some v \<Longrightarrow>
   fst (transmitByte lib acc b s) \<and>
   controlIOBuffer (snd (transmitByte lib acc b s)) =
     Some (fst (echoByte lib (tabSize s) (charBOL s) b v (iLogicalCol s))) \<and>
   iLogicalCol (snd (transmitByte lib acc b s)) =
     snd (echoByte lib (tabSize s) (charBOL s) b v (iLogicalCol s))"
  by (simp add: transmitByte_def Let_def case_prod_beta split: option.splits)

text \<open>
  C8, as stated, fails in its last part: a tab sent to the echo surface when no nonzero
  tab width is configured is not dropped. The text that \<^verbatim>\<open>str.toASCIICode\<close> gives for it
  is appended to the control (here the tab character itself), and the logical column
  advances to the next multiple of 8.
\<close>

theorem transmitByte_tab_counterexample:
  "\<not> truthy (tabSize com1_echo) \<and> controlIOBuffer com1_echo = Some ''ab'' \<and>
   iLogicalCol com1_echo = 2 \<and>
   controlIOBuffer (snd (transmitByte ascii_lib False 0x09 com1_echo))
     = Some [CHR ''a'', CHR ''b'', CHR 0x09] \<and>
   iLogicalCol (snd (transmitByte ascii_lib False 0x09 com1_echo)) = 8"
  by (simp add: transmitByte_def echoByte_def Let_def com1_echo_def com1_ready_def com1_def
      set_registers_def ascii_lib_def js_rem_def char_of_def)

text \<open>
  C8 (amended): a tab byte 0x09 sent to the echo surface is always accepted. When a nonzero
  tab width \<open>w\<close> is configured, \<open>w - (column % w)\<close> spaces are appended to the control
  (after the beginning-of-line character, if one is configured and the column is 0) and
  the logical column advances by that amount. When no nonzero tab width is configured,
  the tab is not expanded: the text of \<^verbatim>\<open>str.toASCIICode(0x09)\<close> is appended instead, and
  the logical column advances by \<open>8 - (column % 8)\<close>, the default width being 8. For a
  column that is not negative and a positive width the amount is \<open>w - column mod w\<close>,
  between 1 and \<open>w\<close>.
\<close>

theorem transmitByte_tab:
  assumes "controlIOBuffer s = Some v"
  shows "fst (transmitByte lib acc 0x09 s) \<and>
    (tabSize s = Some w \<and> w \<noteq> 0 \<longrightarrow>
       controlIOBuffer (snd (transmitByte lib acc 0x09 s)) =
         Some (v @ bol_text s (tab_stop w (iLogicalCol s))
                 @ replicate (nat (tab_stop w (iLogicalCol s))) (CHR '' '')) \<and>
       iLogicalCol (snd (transmitByte lib acc 0x09 s)) =
         iLogicalCol s + tab_stop w (iLogicalCol s)) \<and>
    (\<not> truthy (tabSize s) \<longrightarrow>
       controlIOBuffer (snd (transmitByte lib acc 0x09 s)) =
         Some (v @ bol_text s (tab_stop 8 (iLogicalCol s)) @ toASCIICode lib 0x09) \<and>
       iLogicalCol (snd (transmitByte lib acc 0x09 s)) =
         iLogicalCol s + tab_stop 8 (iLogicalCol s)) \<and>
    (0 \<le> iLogicalCol s \<and> 0 < w \<longrightarrow>
       tab_stop w (iLogicalCol s) = w - iLogicalCol s mod w \<and>
       0 < tab_stop w (iLogicalCol s) \<and> tab_stop w (iLogicalCol s) \<le> w)"
proof (intro conjI impI)
  note e = transmitByte_echo[OF assms, of lib acc "0x09"]
  show "fst (transmitByte lib acc 0x09 s)" using e by simp
  { assume t: "tabSize s = Some w \<and> w \<noteq> 0"
    show "controlIOBuffer (snd (transmitByte lib acc 0x09 s)) =
         Some (v @ bol_text s (tab_stop w (iLogicalCol s))
                 @ replicate (nat (tab_stop w (iLogicalCol s))) (CHR '' ''))"
      using e t
      by (auto simp add: echoByte_def Let_def bol_text_def tab_stop_def str_pad_def)
    show "iLogicalCol (snd (transmitByte lib acc 0x09 s)) =
         iLogicalCol s + tab_stop w (iLogicalCol s)"
      using e t by (simp add: echoByte_def Let_def tab_stop_def)
  }
  { assume t: "\<not> truthy (tabSize s)"
    then have n: "num_or (tabSize s) 8 = 8" by (cases "tabSize s") auto
    show "controlIOBuffer (snd (transmitByte lib acc 0x09 s)) =
         Some (v @ bol_text s (tab_stop 8 (iLogicalCol s)) @ toASCIICode lib 0x09)"
      using e t n by (auto simp add: echoByte_def Let_def bol_text_def tab_stop_def)
    show "iLogicalCol (snd (transmitByte lib acc 0x09 s)) =
         iLogicalCol s + tab_stop 8 (iLogicalCol s)"
      using e t n by (simp add: echoByte_def Let_def tab_stop_def)
  }
  { assume c: "0 \<le> iLogicalCol s \<and> 0 < w"
    then have m: "js_rem (iLogicalCol s) w = iLogicalCol s mod w"
      by (simp add: js_rem_nonneg)
    show "tab_stop w (iLogicalCol s) = w - iLogicalCol s mod w"
      by (simp add: tab_stop_def m)
    show "0 < tab_stop w (iLogicalCol s)"
      using c by (simp add: tab_stop_def m)
    show "tab_stop w (iLogicalCol s) \<le> w"
      using c by (simp add: tab_stop_def m)
  }
qed

theorem transmitByte_tab_witness:
  "controlIOBuffer com1_echo_tab4 = Some ''ab'' \<and> tabSize com1_echo_tab4 = Some 4 \<and>
   (4::int) \<noteq> 0 \<and> 0 \<le> iLogicalCol com1_echo_tab4 \<and>
   controlIOBuffer (snd (transmitByte ascii_lib False 0x09 com1_echo_tab4)) = Some ''ab  '' \<and>
   iLogicalCol (snd (transmitByte ascii_lib False 0x09 com1_echo_tab4)) = 4 \<and>
   \<not> truthy (tabSize com1_echo) \<and>
   iLogicalCol (snd (transmitByte ascii_lib False 0x09 com1_echo)) = 8"
proof -
  have c: "controlIOBuffer com1_echo_tab4 = Some ''ab''"
    "controlIOBuffer com1_echo = Some ''ab''"
    by (simp_all add: com1_echo_tab4_def com1_echo_def)
  have f: "tabSize com1_echo_tab4 = Some 4" "iLogicalCol com1_echo_tab4 = 2"
    "charBOL com1_echo_tab4 = None" "tabSize com1_echo = None" "iLogicalCol com1_echo = 2"
    "charBOL com1_echo = None"
    by (simp_all add: com1_echo_tab4_def com1_echo_def com1_ready_def com1_def
        set_registers_def)
  have t: "tab_stop 4 2 = 2" "tab_stop 8 2 = 6" by (simp_all add: tab_stop_def js_rem_def)
  show ?thesis
    using transmitByte_tab [OF c(1), of ascii_lib False 4]
      transmitByte_tab [OF c(2), of ascii_lib False 8]
    by (simp add: c f t bol_text_def numeral_2_eq_2)
qed

subsection \<open>The scenarios of the spec, run on the model\<close>

text \<open>Scenarios A and B: with the console log as sink and no peer, writing \<open>A\<close> leaves \<open>A\<close> in
  the line buffer and flushes nothing; writing \<open>B\<close> and a linefeed then flushes the one
  line \<open>AB\<close> and leaves the buffer empty.\<close>

lemma scenario_log_sink:
  "consoleOutput (outTHR ascii_lib False 0x41 com1_console) = Some ''A'' \<and>
   trace (outTHR ascii_lib False 0x41 com1_console) = [] \<and>
   consoleOutput (apply_writes ascii_lib rs232_masks
      [(0, 0x41, False), (0, 0x42, False), (0, 0x0A, False)] com1_console) = Some [] \<and>
   trace (apply_writes ascii_lib rs232_masks
      [(0, 0x41, False), (0, 0x42, False), (0, 0x0A, False)] com1_console) = [Println ''AB'']"
  by (simp add: portOutput_def outTHR_def transmitByte_def Let_def com1_console_def
      com1_ready_def com1_def set_registers_def reg_defs char_of_def)

text \<open>Scenario D: two bytes pushed into the empty queue of a device with the receive
  interrupt enabled set \<open>lsr.DR\<close>, make \<open>iir\<close> the receive-available code and assert the
  line; the read yields the first byte and stages the second at once.\<close>

lemma scenario_receive:
  "bLSR (snd (receiveData (RxArray [0x10, 0x20]) com1_rx_enabled)) AND LSR_DR = LSR_DR \<and>
   bIIR (snd (receiveData (RxArray [0x10, 0x20]) com1_rx_enabled)) = IIR_INT_RBR \<and>
   trace (snd (receiveData (RxArray [0x10, 0x20]) com1_rx_enabled)) = [SetIRR 4 100] \<and>
   fst (inRBR (snd (receiveData (RxArray [0x10, 0x20]) com1_rx_enabled))) = 0x10 \<and>
   bRBR (snd (inRBR (snd (receiveData (RxArray [0x10, 0x20]) com1_rx_enabled)))) = 0x20 \<and>
   bLSR (snd (inRBR (snd (receiveData (RxArray [0x10, 0x20]) com1_rx_enabled)))) AND LSR_DR
     = LSR_DR \<and>
   trace (snd (inRBR (snd (receiveData (RxArray [0x10, 0x20]) com1_rx_enabled))))
     = [SetIRR 4 100, SetIRR 4 100]"
  by (simp add: inRBR_def advanceRBR_def updateIRR_def Let_def com1_rx_enabled_def
      com1_ready_def com1_def set_registers_def reg_defs)

end
